theory Spec2Isabelle
  imports Main "HOL-Library.Product_Lexorder" "HOL-Library.Multiset"
begin

section \<open>Strings\<close>

text \<open>Go strings are byte sequences; they are modelled as \<open>string\<close>. The regular
  expressions of the source are all ASCII patterns, so matching works on bytes.\<close>

definition is_digit :: "char \<Rightarrow> bool" where
  "is_digit c = (c \<in> set ''0123456789'')"

text \<open>The class \<open>\w\<close> of Go's regexp package: ASCII letters, digits and underscore.\<close>

definition is_word :: "char \<Rightarrow> bool" where
  "is_word c = (c \<in> set ''0123456789abcdefghijklmnopqrstuvwxyzABCDEFGHIJKLMNOPQRSTUVWXYZ_'')"

fun starts_with :: "string \<Rightarrow> string \<Rightarrow> bool" where
  "starts_with [] s = True"
| "starts_with (p # ps) [] = False"
| "starts_with (p # ps) (c # cs) = (p = c \<and> starts_with ps cs)"

text \<open>\<open>regexp.MatchString\<close> with a pattern free of metacharacters: substring search.\<close>

fun contains :: "string \<Rightarrow> string \<Rightarrow> bool" where
  "contains p [] = (p = [])"
| "contains p (c # cs) = (starts_with p (c # cs) \<or> contains p cs)"

definition digit_val :: "char \<Rightarrow> nat" where
  "digit_val c = of_char c - 48"

definition nat_of_digits :: "string \<Rightarrow> nat" where
  "nat_of_digits ds = foldl (\<lambda>a c. 10 * a + digit_val c) 0 ds"

text \<open>\<open>strconv.ParseInt(s, 10, 64)\<close> of the Go standard library: an optional sign, then
  decimal digits; a syntax error or a value outside the signed 64-bit range is an error
  (\<open>None\<close>).\<close>

definition ParseInt :: "string \<Rightarrow> int option" where
  "ParseInt s =
     (let neg = (s \<noteq> [] \<and> hd s = CHR ''-'');
          ds = (if s \<noteq> [] \<and> (hd s = CHR ''-'' \<or> hd s = CHR ''+'') then tl s else s)
      in if ds = [] \<or> \<not> list_all is_digit ds then None
         else let n = int (nat_of_digits ds)
              in if neg then (if n \<le> 2 ^ 63 then Some (- n) else None)
                 else (if n \<le> 2 ^ 63 - 1 then Some n else None))"

definition digit_char :: "nat \<Rightarrow> char" where
  "digit_char n = ''0123456789'' ! n"

text \<open>The verb \<open>%d\<close> of \<open>fmt.Sprintf\<close>: decimal digits, with a minus sign when negative.\<close>

function string_of_nat :: "nat \<Rightarrow> string" where
  "string_of_nat n =
     (if n < 10 then [digit_char n] else string_of_nat (n div 10) @ [digit_char (n mod 10)])"
  by pat_completeness auto
termination
  by (relation "measure id") auto

declare string_of_nat.simps [simp del]

definition string_of_int :: "int \<Rightarrow> string" where
  "string_of_int i = (if i < 0 then CHR ''-'' # string_of_nat (nat (- i)) else string_of_nat (nat i))"

section \<open>Data model\<close>

text \<open>lib/structs.go. Longitude and latitude (float64) play no part in selection or
  checking and are left out.\<close>

record Location =
  Known :: bool
  Continent :: string
  Country :: string
  Region :: string

record CheckTask =
  t_MirrorID :: int
  t_RepoID :: int
  t_URL :: string
  t_Iso :: bool
  t_AltArch :: bool
  t_Valid :: bool

record CheckResult =
  cr_MirrorID :: int
  cr_RepoID :: int
  cr_Timestamp :: int
  cr_Result :: int

text \<open>The three relations created by \<open>InitDatabase\<close> (lib/functions.go). A table is the
  list of its rows in storage order; a column that the code leaves unset on insertion
  (\<open>status.timestamp\<close>, \<open>status.result\<close>) is an option, \<open>None\<close> being SQL NULL.\<close>

record mirror_row =
  m_id :: int
  m_name :: string
  m_basedir :: string
  m_basedir_altarch :: string
  m_ipv4 :: int
  m_ipv6 :: int
  m_enabled :: int
  m_continent :: string
  m_country :: string
  m_region :: string

record repo_row =
  r_id :: int
  r_major_release :: int
  r_path :: string
  r_name :: string
  r_arch :: string
  r_is_altarch :: int
  r_enabled :: int

record status_row =
  s_mirror_id :: int
  s_repo_id :: int
  s_timestamp :: "int option"
  s_checked :: int
  s_result :: "int option"

record db =
  mirrors :: "mirror_row list"
  repos :: "repo_row list"
  status :: "status_row list"

section \<open>Checker pipeline (mirrorlist\_updater.go)\<close>

subsection \<open>Scheduler\<close>



text \<open>The body of the \<open>rows.Next()\<close> loop: one task per row.\<close>

definition check_task :: "status_row \<times> mirror_row \<times> repo_row \<Rightarrow> CheckTask" where
  "check_task x =
     (case x of (s, m, r) \<Rightarrow>
        let iso = contains ''isos'' (r_name r);
            RepoArch = (if r_major_release r = 8 \<and> \<not> iso then r_arch r @ ''/os'' else r_arch r)
        in if r_is_altarch r > 0
           then \<lparr>t_MirrorID = m_id m, t_RepoID = s_repo_id s,
                 t_URL = ''http://'' @ m_name m @ m_basedir_altarch m @ ''/'' @ r_path r @ ''/''
                           @ r_name r @ ''/'' @ RepoArch,
                 t_Iso = iso, t_AltArch = (r_is_altarch r > 0), t_Valid = True\<rparr>
           else \<lparr>t_MirrorID = m_id m, t_RepoID = s_repo_id s,
                 t_URL = ''http://'' @ m_name m @ m_basedir m @ ''/'' @ r_path r @ ''/''
                           @ r_name r @ ''/'' @ RepoArch,
                 t_Iso = iso, t_AltArch = (r_is_altarch r > 0), t_Valid = True\<rparr>)"


text \<open>Both channels are made with capacity 20.\<close>

definition chan_cap :: nat where
  "chan_cap = 20"


subsection \<open>Probes\<close>

text \<open>What \<open>client.Do\<close> returns: an error with its message, or a response with its status
  code and body. The network is a function from the requested URL to the reply.\<close>

datatype http_reply = TransportError string | Response int string

text \<open>The leftmost match of \<open><timestamp>(\d+)<\/timestamp>\<close>. The digits are followed
  by \<open><\<close>, so the group is the whole run of digits after the opening tag.\<close>

definition match_timestamp_at :: "string \<Rightarrow> string option" where
  "match_timestamp_at s =
     (if starts_with ''<timestamp>'' s
      then let rest = drop 11 s;
               ds = takeWhile is_digit rest
           in if ds \<noteq> [] \<and> starts_with ''</timestamp>'' (dropWhile is_digit rest)
              then Some ds else None
      else None)"

fun FindStringSubmatch :: "string \<Rightarrow> string option" where
  "FindStringSubmatch [] = None"
| "FindStringSubmatch (c # cs) =
     (case match_timestamp_at (c # cs) of
        Some ds \<Rightarrow> Some ds
      | None \<Rightarrow> FindStringSubmatch cs)"

definition repository_timestamp :: "(string \<Rightarrow> http_reply) \<Rightarrow> string \<Rightarrow> int \<times> int" where
  "repository_timestamp net url =
     (case net (url @ ''/repodata/repomd.xml'') of
        TransportError err \<Rightarrow>
          if contains ''no such host'' err then (0, - 1)
          else if contains ''deadline exceeded'' err then (0, - 2)
          else (0, - 3)
      | Response StatusCode data \<Rightarrow>
          if StatusCode \<noteq> 200 then (0, StatusCode)
          else (case FindStringSubmatch data of
                  Some ds \<Rightarrow>
                    (case ParseInt ds of
                       Some timestampint \<Rightarrow> (timestampint, StatusCode)
                     | None \<Rightarrow> (0, StatusCode))
                | None \<Rightarrow> (0, - 4)))"

definition iso_timestamp :: "(string \<Rightarrow> http_reply) \<Rightarrow> int \<Rightarrow> string \<Rightarrow> int \<times> int" where
  "iso_timestamp net now url =
     (case net (url @ ''/sha256sum.txt'') of
        Response c b \<Rightarrow> (now, 200)
      | TransportError e \<Rightarrow>
          (case net (url @ ''/CHECKSUM'') of
             Response c b \<Rightarrow> (now, 200)
           | TransportError e' \<Rightarrow> (0, 404)))"

text \<open>\<open>execute_test\<close> sends one result to the result channel, or none for an invalid
  task.\<close>

definition execute_test :: "(string \<Rightarrow> http_reply) \<Rightarrow> int \<Rightarrow> CheckTask \<Rightarrow> CheckResult option" where
  "execute_test net now task =
     (if \<not> t_Valid task then None
      else let (timestamp, httpcode) =
                 (if t_Iso task then iso_timestamp net now (t_URL task)
                  else repository_timestamp net (t_URL task))
           in Some \<lparr>cr_MirrorID = t_MirrorID task, cr_RepoID = t_RepoID task,
                    cr_Timestamp = timestamp, cr_Result = httpcode\<rparr>)"

subsection \<open>Committer\<close>

text \<open>\<open>UPDATE status SET timestamp = ?, checked = ?, result = ? WHERE mirror_id = ? AND
  repo_id = ?\<close>, run on the database handle itself (not on the transaction).\<close>

definition update_row :: "CheckResult \<Rightarrow> int \<Rightarrow> status_row \<Rightarrow> status_row" where
  "update_row cr now s =
     (if s_mirror_id s = cr_MirrorID cr \<and> s_repo_id s = cr_RepoID cr
      then s\<lparr>s_timestamp := Some (cr_Timestamp cr), s_checked := now,
              s_result := Some (cr_Result cr)\<rparr>
      else s)"

definition update_mirror_status :: "CheckResult \<Rightarrow> int \<Rightarrow> db \<Rightarrow> db" where
  "update_mirror_status cr now d = d\<lparr>status := map (update_row cr now) (status d)\<rparr>"

text \<open>The third goroutine of \<open>main\<close> as a machine. The result channel is its buffer
  (oldest first) and its closed flag. \<open>for result := range resultchan\<close> receives while the
  buffer is non-empty, leaves the loop when the channel is closed and empty, and waits
  otherwise.\<close>

datatype committer_pc = AtTick | InDrain | AtCommit

record pipeline =
  p_pc :: committer_pc
  p_resultchan :: "CheckResult list"
  p_closed :: bool
  p_db :: db
  p_commits :: nat

datatype progress = Stepped pipeline | Blocked

definition committer_step :: "int \<Rightarrow> pipeline \<Rightarrow> progress" where
  "committer_step now p =
     (case p_pc p of
        AtTick \<Rightarrow>
          if length (p_resultchan p) \<ge> chan_cap div 2
          then Stepped (p\<lparr>p_pc := InDrain\<rparr>)
          else Stepped p
      | InDrain \<Rightarrow>
          (case p_resultchan p of
             result # rest \<Rightarrow>
               Stepped (p\<lparr>p_resultchan := rest, p_db := update_mirror_status result now (p_db p)\<rparr>)
           | [] \<Rightarrow> if p_closed p then Stepped (p\<lparr>p_pc := AtCommit\<rparr>) else Blocked)
      | AtCommit \<Rightarrow> Stepped (p\<lparr>p_pc := AtTick, p_commits := p_commits p + 1\<rparr>))"

text \<open>\<open>resultchan <- result\<close> in \<open>execute_test\<close>: the send waits while the buffer is
  full.\<close>

definition send_result :: "CheckResult \<Rightarrow> pipeline \<Rightarrow> progress" where
  "send_result cr p =
     (if length (p_resultchan p) < chan_cap
      then Stepped (p\<lparr>p_resultchan := p_resultchan p @ [cr]\<rparr>)
      else Blocked)"

text \<open>\<open>n\<close> steps of the committer alone, with no result arriving in between.\<close>

fun committer_run :: "nat \<Rightarrow> int \<Rightarrow> pipeline \<Rightarrow> progress" where
  "committer_run 0 now p = Stepped p"
| "committer_run (Suc n) now p =
     (case committer_step now p of
        Stepped p' \<Rightarrow> committer_run n now p'
      | Blocked \<Rightarrow> Blocked)"

text \<open>The states of a run: the channel starts open and empty, the committer at its tick;
  the committer and the probes move in any order. Nothing in the program closes the
  channel.\<close>

inductive reachable :: "db \<Rightarrow> pipeline \<Rightarrow> bool" for d :: db where
  init: "reachable d \<lparr>p_pc = AtTick, p_resultchan = [], p_closed = False, p_db = d, p_commits = 0\<rparr>"
| committer: "reachable d p \<Longrightarrow> committer_step now p = Stepped p' \<Longrightarrow> reachable d p'"
| probe: "reachable d p \<Longrightarrow> send_result cr p = Stepped p' \<Longrightarrow> reachable d p'"


section \<open>Selection engine (mirrorlist/main.go)\<close>

subsection \<open>Collaborators\<close>

text \<open>Modelled from the spec: the response cache is the library freecache, which is not
  part of this repository. Following section 4.2 it is a key-to-bytes store with a
  per-entry expiry enforced at read time (an expired entry behaves as a miss) and hit and
  miss counters; eviction by capacity is not modelled. An entry is its value and the time
  at which it expires.\<close>

record cache =
  entries :: "string \<rightharpoonup> string \<times> int"
  HitCount :: nat
  MissCount :: nat

definition cache_Get :: "int \<Rightarrow> string \<Rightarrow> cache \<Rightarrow> string option \<times> cache" where
  "cache_Get now key c =
     (case entries c key of
        None \<Rightarrow> (None, c\<lparr>MissCount := MissCount c + 1\<rparr>)
      | Some (v, expireAt) \<Rightarrow>
          if expireAt \<le> now then (None, c\<lparr>MissCount := MissCount c + 1\<rparr>)
          else (Some v, c\<lparr>HitCount := HitCount c + 1\<rparr>))"

definition cache_Set :: "int \<Rightarrow> string \<Rightarrow> string \<Rightarrow> int \<Rightarrow> cache \<Rightarrow> cache" where
  "cache_Set now key v expireSeconds c = c\<lparr>entries := (entries c)(key \<mapsto> (v, now + expireSeconds))\<rparr>"

definition LookupCount :: "cache \<Rightarrow> nat" where
  "LookupCount c = HitCount c + MissCount c"

text \<open>The globals of the front end (\<open>listsize\<close>, \<open>caching\<close>, \<open>headers\<close>) and what it
  takes from outside: whether an address parses as IPv4 (\<open>net.ParseIP(ip).To4() != nil\<close>),
  the GeoIP lookup (\<open>None\<close> when it fails), the values of \<open>RANDOM()\<close> drawn for a row
  (by mirror id in \<open>mirrors_with_repo\<close>, by tier and mirror id in \<open>nearby_mirrors\<close>), the
  text of the elapsed time, and the database engine's comparison \<open>column = ?\<close> of an integer
  column with a parameter bound as text (SQLite converts a text that looks like a number,
  so that \<open>8\<close>, \<open>8.0\<close> and \<open>8e0\<close> all equal 8).\<close>

record env =
  listsize :: int
  caching :: bool
  headers :: "(string \<times> string) list"
  is_ipv4 :: "string \<Rightarrow> bool"
  geo_city :: "string \<Rightarrow> Location option"
  random_order :: "int \<Rightarrow> int"
  random_tier :: "int \<Rightarrow> int \<Rightarrow> int"
  elapsed :: string
  text_equals_integer :: "string \<Rightarrow> int \<Rightarrow> bool"

record request =
  RemoteAddr :: string
  QueryArgs :: "(string \<times> string) list"

record response =
  StatusCode :: int
  Body :: string
  Header :: "(string \<times> string) list"

text \<open>\<open>ctx.QueryArgs().Peek(key)\<close>: the first value of the key, empty when absent.\<close>

definition Peek :: "request \<Rightarrow> string \<Rightarrow> string" where
  "Peek req key = (case map_of (QueryArgs req) key of None \<Rightarrow> [] | Some v \<Rightarrow> v)"

fun Header_Set :: "string \<Rightarrow> string \<Rightarrow> (string \<times> string) list \<Rightarrow> (string \<times> string) list" where
  "Header_Set k v [] = [(k, v)]"
| "Header_Set k v ((k', v') # hs) =
     (if k' = k then (k, v) # hs else (k', v') # Header_Set k v hs)"

definition nl :: char where
  "nl = CHR 0x0A"

subsection \<open>lib/functions.go\<close>

definition IPversion :: "env \<Rightarrow> string \<Rightarrow> string" where
  "IPversion e ip = (if \<not> is_ipv4 e ip then ''6'' else ''4'')"

subsection \<open>Queries\<close>

definition get_ip_location :: "env \<Rightarrow> string \<Rightarrow> Location" where
  "get_ip_location e ip =
     (case geo_city e ip of
        None \<Rightarrow> \<lparr>Known = False, Continent = [], Country = [], Region = []\<rparr>
      | Some record \<Rightarrow> record\<lparr>Known := True\<rparr>)"

text \<open>\<open>SELECT repo_id, path, is_altarch FROM repos WHERE enabled > 0 AND major_release = ?
  AND name = ? AND arch = ?\<close>, first row. The release is bound as the raw text of the query
  parameter and compared with the integer column by the engine (\<open>text_equals_integer\<close>).
  Scanning \<open>is_altarch\<close> into a bool accepts 0 and 1 only; any error gives
  \<open>(-1, "", false)\<close>.\<close>

definition get_repo_id ::
  "env \<Rightarrow> db \<Rightarrow> string \<Rightarrow> string \<Rightarrow> string \<Rightarrow> int \<times> string \<times> bool" where
  "get_repo_id e d release repo arch =
     (case [r \<leftarrow> repos d. r_enabled r > 0 \<and> text_equals_integer e release (r_major_release r)
                            \<and> r_name r = repo \<and> r_arch r = arch] of
        [] \<Rightarrow> (- 1, [], False)
      | r # rs \<Rightarrow>
          if r_is_altarch r = 0 then (r_id r, r_path r, False)
          else if r_is_altarch r = 1 then (r_id r, r_path r, True)
          else (- 1, [], False))"

text \<open>\<open>ORDER BY status.timestamp DESC\<close>: NULL sorts below every number, so last.\<close>

definition timestamp_desc :: "int option \<Rightarrow> int \<times> int" where
  "timestamp_desc t = (case t of None \<Rightarrow> (1, 0) | Some n \<Rightarrow> (0, - n))"

definition mirrors_with_repo :: "env \<Rightarrow> db \<Rightarrow> int \<Rightarrow> int list" where
  "mirrors_with_repo e d repoid =
     map (\<lambda>x. s_mirror_id (fst x))
       (sort_key (\<lambda>x. (timestamp_desc (s_timestamp (fst x)), random_order e (s_mirror_id (fst x))))
          [(s, m). s \<leftarrow> status d, m \<leftarrow> mirrors d, s_mirror_id s = m_id m,
                   s_repo_id s = repoid \<and> m_enabled m > 0])"

text \<open>\<open>WHERE mirror_id IN (?)\<close> with no \<open>ORDER BY\<close>: each matching row once, in the order
  of the table (for a table with an integer primary key, ascending id).\<close>

definition eligible :: "db \<Rightarrow> int list \<Rightarrow> mirror_row list" where
  "eligible d ids = [m \<leftarrow> mirrors d. m_id m \<in> set ids]"

text \<open>The column \<open>"ipv"+ipversion\<close>; any other name is an SQL error.\<close>

definition ipv_column :: "string \<Rightarrow> (mirror_row \<Rightarrow> int) option" where
  "ipv_column ipversion =
     (if ipversion = ''4'' then Some m_ipv4
      else if ipversion = ''6'' then Some m_ipv6
      else None)"

text \<open>The three SELECTs of \<open>nearby_mirrors\<close>, each row being (mirror id, prio, rand).\<close>

definition tier_rows ::
  "env \<Rightarrow> db \<Rightarrow> Location \<Rightarrow> (mirror_row \<Rightarrow> int) \<Rightarrow> int list \<Rightarrow> (int \<times> int \<times> int) list" where
  "tier_rows e d loc ipv ids =
     [(m_id m, 3, random_tier e 3 (m_id m)). m \<leftarrow> eligible d ids,
        m_continent m = Continent loc \<and> ipv m > 0 \<and> m_enabled m > 0]
     @ [(m_id m, 2, random_tier e 2 (m_id m)). m \<leftarrow> eligible d ids,
        m_continent m = Continent loc \<and> m_country m = Country loc
        \<and> ipv m > 0 \<and> m_enabled m > 0]
     @ [(m_id m, 1, random_tier e 1 (m_id m)). m \<leftarrow> eligible d ids,
        m_continent m = Continent loc \<and> m_country m = Country loc \<and> m_region m = Region loc
        \<and> ipv m > 0 \<and> m_enabled m > 0]"

text \<open>\<open>LIMIT ?\<close>; a negative limit is no limit (SQLite).\<close>

definition sql_limit :: "int \<Rightarrow> 'a list \<Rightarrow> 'a list" where
  "sql_limit n xs = (if n < 0 then xs else take (nat n) xs)"

text \<open>\<open>UNION\<close> removes rows that are equal in all three columns; \<open>ORDER BY prio, rand\<close>
  and the limit apply to the whole union. \<open>sqlx.In\<close> fails on an empty list, and the
  function then returns the empty result.\<close>

definition nearby_mirrors :: "env \<Rightarrow> db \<Rightarrow> Location \<Rightarrow> string \<Rightarrow> int list \<Rightarrow> int \<Rightarrow> int list" where
  "nearby_mirrors e d loc ipversion mirrorids limit =
     (if mirrorids = [] then []
      else case ipv_column ipversion of
             None \<Rightarrow> []
           | Some ipv \<Rightarrow>
               map fst (sql_limit limit
                 (sort_key (\<lambda>row. (fst (snd row), snd (snd row)))
                    (remdups (tier_rows e d loc ipv mirrorids)))))"

subsection \<open>Rendering\<close>

text \<open>\<open>multislash.ReplaceAllString(result, "$1/")\<close> for the pattern \<open>(\w)\/+\<close>: from left to
  right, a word character followed by one or more slashes keeps one slash.\<close>

function multislash :: "string \<Rightarrow> string" where
  "multislash [] = []"
| "multislash (c # cs) =
     (if is_word c \<and> starts_with ''/'' cs
      then c # CHR ''/'' # multislash (dropWhile (\<lambda>x. x = CHR ''/'') cs)
      else c # multislash cs)"
  by pat_completeness auto
termination
  by (relation "measure length") (auto simp: less_Suc_eq_le length_dropWhile_le)

text \<open>The line appended for one row of the query. The argument \<open>release\<close> is tested by
  the patterns \<open>^7\<close> and \<open>^8\<close>.\<close>

definition url_lines :: "string \<Rightarrow> string \<Rightarrow> string \<Rightarrow> bool \<Rightarrow> mirror_row \<Rightarrow> string" where
  "url_lines release repo arch is_altarch m =
     (let directory = (if is_altarch then m_basedir_altarch m else m_basedir m)
      in (if starts_with ''7'' release
          then ''http://'' @ m_name m @ ''/'' @ directory @ ''/'' @ release @ ''/'' @ repo
                 @ ''/'' @ arch @ ''/'' @ [nl]
          else [])
         @ (if starts_with ''8'' release
            then ''http://'' @ m_name m @ ''/'' @ directory @ ''/'' @ release @ ''/'' @ repo
                   @ ''/'' @ arch @ ''/os/'' @ [nl]
            else []))"

definition full_mirror_urls :: "db \<Rightarrow> int list \<Rightarrow> string \<Rightarrow> string \<Rightarrow> string \<Rightarrow> bool \<Rightarrow> string" where
  "full_mirror_urls d mirrorids release repo arch is_altarch =
     (if mirrorids = [] then []
      else multislash (concat (map (url_lines release repo arch is_altarch) (eligible d mirrorids))))"

subsection \<open>The handler of the selection endpoint\<close>

definition cachekey :: "int \<Rightarrow> string \<Rightarrow> Location \<Rightarrow> string" where
  "cachekey repoid ipversion clientloc =
     string_of_int repoid @ ipversion @ Continent clientloc @ Country clientloc @ Region clientloc"

definition missing_parameter :: "request \<Rightarrow> string option" where
  "missing_parameter req = find (\<lambda>key. Peek req key = []) [''arch'', ''release'', ''repo'']"

text \<open>\<open>http_handler_root\<close> from the query for the mirrors of the repository to its end
  (the part run when the cache gave no response).\<close>

definition select_and_respond ::
  "env \<Rightarrow> db \<Rightarrow> int \<Rightarrow> request \<Rightarrow> string \<Rightarrow> Location \<Rightarrow> string \<Rightarrow> int \<Rightarrow> string \<Rightarrow> bool
     \<Rightarrow> (string \<times> string) list \<Rightarrow> cache \<Rightarrow> response \<times> cache" where
  "select_and_respond e d now req clientip clientloc ipversion repoid repopath is_altarch hdr c =
     (let allmirrors = mirrors_with_repo e d repoid
      in if length allmirrors = 0
         then (\<lparr>StatusCode = 404, Body = [], Header = hdr\<rparr>, c)
         else
           let mirrorids = (if int (length allmirrors) > listsize e
                          then nearby_mirrors e d clientloc (IPversion e clientip) allmirrors (listsize e)
                          else allmirrors);
               response = full_mirror_urls d mirrorids repopath (Peek req ''repo'') (Peek req ''arch'')
                            is_altarch
           in (\<lparr>StatusCode = 200, Body = response,
                 Header = Header_Set ''X-Processing-Time'' (elapsed e) hdr\<rparr>,
               if caching e \<and> length response > 0
               then cache_Set now (cachekey repoid ipversion clientloc) response 3600 c
               else c))"

definition http_handler_root :: "env \<Rightarrow> db \<Rightarrow> int \<Rightarrow> request \<Rightarrow> cache \<Rightarrow> response \<times> cache" where
  "http_handler_root e d now req c =
     (let clientip = (if Peek req ''ip'' \<noteq> [] then Peek req ''ip'' else RemoteAddr req);
          ipversion = IPversion e clientip;
          hdr = fold (\<lambda>kv. Header_Set (fst kv) (snd kv)) (headers e) []
      in case missing_parameter req of
           Some key \<Rightarrow>
             (\<lparr>StatusCode = 400, Body = key @ '' not specified'' @ [nl], Header = hdr\<rparr>, c)
         | None \<Rightarrow>
             (case get_repo_id e d (Peek req ''release'') (Peek req ''repo'') (Peek req ''arch'') of
                (repoid, repopath, is_altarch) \<Rightarrow>
                  if repoid \<le> 0
                  then (\<lparr>StatusCode = 404,
                         Body = ''Invalid release/repo/arch combination'' @ [nl],
                         Header = hdr\<rparr>, c)
                  else
                    let clientloc = get_ip_location e clientip
                    in if caching e
                       then (case cache_Get now (cachekey repoid ipversion clientloc) c of
                               (Some response, c') \<Rightarrow>
                                 (\<lparr>StatusCode = 200, Body = response,
                                   Header = Header_Set ''X-Processing-Time'' (elapsed e)
                                              (Header_Set ''X-Cache-Hit'' ''true'' hdr)\<rparr>, c')
                             | (None, c') \<Rightarrow>
                                 select_and_respond e d now req clientip clientloc ipversion
                                   repoid repopath is_altarch
                                   (Header_Set ''X-Cache-Hit'' ''false'' hdr) c')
                       else select_and_respond e d now req clientip clientloc ipversion
                              repoid repopath is_altarch hdr c))"

text \<open>A word character directly followed by two slashes, somewhere in the text: what the
  replacement is there to remove.\<close>

fun slashes_after_word :: "string \<Rightarrow> bool" where
  "slashes_after_word (a # b # c # cs) =
     (is_word a \<and> b = CHR ''/'' \<and> c = CHR ''/'' \<or> slashes_after_word (b # c # cs))"
| "slashes_after_word cs = False"

section \<open>Sample data\<close>

definition sample_repomd_url :: string where
  "sample_repomd_url = ''http://mirror.example.org/centos/7/os/x86_64/repodata/repomd.xml''"

definition sample_task :: CheckTask where
  "sample_task = \<lparr>t_MirrorID = 1, t_RepoID = 1,
                    t_URL = ''http://mirror.example.org/centos/7/os/x86_64'',
                    t_Iso = False, t_AltArch = False, t_Valid = True\<rparr>"

definition net_404 :: "string \<Rightarrow> http_reply" where
  "net_404 u = (if u = sample_repomd_url then Response 404 ''Not Found''
                else TransportError ''no such host'')"

definition net_huge_timestamp :: "string \<Rightarrow> http_reply" where
  "net_huge_timestamp u =
     (if u = sample_repomd_url
      then Response 200 ''<repomd><timestamp>9223372036854775808</timestamp></repomd>''
      else TransportError ''no such host'')"

definition sample_status :: status_row where
  "sample_status = \<lparr>s_mirror_id = 1, s_repo_id = 1, s_timestamp = Some 1600000000,
                      s_checked = 1600000100, s_result = Some 200\<rparr>"

definition other_status :: status_row where
  "other_status = \<lparr>s_mirror_id = 2, s_repo_id = 1, s_timestamp = Some 1600000050,
                     s_checked = 1600000200, s_result = Some 200\<rparr>"

definition sample_checker_db :: db where
  "sample_checker_db = \<lparr>mirrors = [], repos = [], status = [sample_status, other_status]\<rparr>"

definition result_404 :: CheckResult where
  "result_404 = \<lparr>cr_MirrorID = 1, cr_RepoID = 1, cr_Timestamp = 0, cr_Result = 404\<rparr>"

definition mirror_a :: mirror_row where
  "mirror_a = \<lparr>m_id = 1, m_name = ''a.example.org'', m_basedir = ''/centos'',
                 m_basedir_altarch = ''/altarch'', m_ipv4 = 1, m_ipv6 = 0, m_enabled = 1,
                 m_continent = ''EU'', m_country = ''DE'', m_region = ''HE''\<rparr>"

definition mirror_b :: mirror_row where
  "mirror_b = \<lparr>m_id = 2, m_name = ''b.example.org'', m_basedir = ''/pub/centos/'',
                 m_basedir_altarch = [], m_ipv4 = 1, m_ipv6 = 1, m_enabled = 1,
                 m_continent = ''EU'', m_country = ''DE'', m_region = ''BY''\<rparr>"

definition repo_os7 :: repo_row where
  "repo_os7 = \<lparr>r_id = 1, r_major_release = 7, r_path = ''7'', r_name = ''os'',
                 r_arch = ''x86_64'', r_is_altarch = 0, r_enabled = 1\<rparr>"








definition ten_results :: "CheckResult list" where
  "ten_results =
     map (\<lambda>i. \<lparr>cr_MirrorID = i, cr_RepoID = 1, cr_Timestamp = 1700000000, cr_Result = 200\<rparr>)
       [1, 2, 3, 4, 5, 6, 7, 8, 9, 10]"

definition half_full :: pipeline where
  "half_full = \<lparr>p_pc = AtTick, p_resultchan = ten_results, p_closed = False,
                  p_db = sample_checker_db, p_commits = 0\<rparr>"

definition drained :: pipeline where
  "drained = \<lparr>p_pc = InDrain, p_resultchan = [], p_closed = False,
                p_db = fold (\<lambda>r d. update_mirror_status r 1700000005 d) ten_results sample_checker_db,
                p_commits = 0\<rparr>"

definition mirror_c :: mirror_row where
  "mirror_c = \<lparr>m_id = 3, m_name = ''c.example.com'', m_basedir = ''/centos'',
                 m_basedir_altarch = [], m_ipv4 = 1, m_ipv6 = 1, m_enabled = 1,
                 m_continent = ''NA'', m_country = ''US'', m_region = ''CA''\<rparr>"

definition mirror_d :: mirror_row where
  "mirror_d = \<lparr>m_id = 4, m_name = ''d.example.jp'', m_basedir = ''/linux/centos'',
                 m_basedir_altarch = [], m_ipv4 = 1, m_ipv6 = 0, m_enabled = 1,
                 m_continent = ''AS'', m_country = ''JP'', m_region = ''13''\<rparr>"

definition mirror_e :: mirror_row where
  "mirror_e = \<lparr>m_id = 5, m_name = ''e.example.ca'', m_basedir = ''/centos'',
                 m_basedir_altarch = [], m_ipv4 = 1, m_ipv6 = 0, m_enabled = 1,
                 m_continent = ''NA'', m_country = ''CA'', m_region = ''ON''\<rparr>"

definition mirror_f :: mirror_row where
  "mirror_f = \<lparr>m_id = 6, m_name = ''f.example.au'', m_basedir = ''/centos'',
                 m_basedir_altarch = [], m_ipv4 = 1, m_ipv6 = 0, m_enabled = 1,
                 m_continent = ''OC'', m_country = ''AU'', m_region = ''NSW''\<rparr>"

definition repo_baseos8 :: repo_row where
  "repo_baseos8 = \<lparr>r_id = 2, r_major_release = 8, r_path = ''8'', r_name = ''BaseOS'',
                     r_arch = ''x86_64'', r_is_altarch = 0, r_enabled = 1\<rparr>"

definition repo_baseos9 :: repo_row where
  "repo_baseos9 = \<lparr>r_id = 3, r_major_release = 9, r_path = ''9-stream'', r_name = ''BaseOS'',
                     r_arch = ''x86_64'', r_is_altarch = 0, r_enabled = 1\<rparr>"

definition repo_vault8 :: repo_row where
  "repo_vault8 = \<lparr>r_id = 4, r_major_release = 8, r_path = ''vault/8.5'', r_name = ''BaseOS'',
                    r_arch = ''aarch64'', r_is_altarch = 0, r_enabled = 1\<rparr>"

definition checked_ok :: "int \<Rightarrow> int \<Rightarrow> status_row" where
  "checked_ok mirror repo = \<lparr>s_mirror_id = mirror, s_repo_id = repo, s_timestamp = Some 1699990000,
                               s_checked = 1699995000, s_result = Some 200\<rparr>"

text \<open>Six mirrors serving repository 1, stored in the order of their ids.\<close>

definition selection_db :: db where
  "selection_db =
     \<lparr>mirrors = [mirror_a, mirror_b, mirror_c, mirror_d, mirror_e, mirror_f],
      repos = [repo_os7, repo_baseos8, repo_baseos9, repo_vault8],
      status = [checked_ok 1 1, checked_ok 2 1, checked_ok 3 1, checked_ok 4 1,
                checked_ok 5 1, checked_ok 6 1,
                checked_ok 1 2, checked_ok 3 2, checked_ok 5 2,
                checked_ok 1 3, checked_ok 1 4]\<rparr>"

definition bavaria :: Location where
  "bavaria = \<lparr>Known = True, Continent = ''EU'', Country = ''DE'', Region = ''BY''\<rparr>"

definition loc_country_us :: Location where
  "loc_country_us = \<lparr>Known = True, Continent = ''NA'', Country = ''US'', Region = []\<rparr>"

definition loc_region_us :: Location where
  "loc_region_us = \<lparr>Known = True, Continent = ''NA'', Country = [], Region = ''US''\<rparr>"

definition sample_geo :: "string \<Rightarrow> Location option" where
  "sample_geo ip =
     (if ip = ''192.0.2.10'' then Some bavaria
      else if ip = ''198.51.100.1'' then Some loc_country_us
      else if ip = ''198.51.100.2'' then Some loc_region_us
      else None)"

text \<open>SQLite's comparison of a text with an integer, for the texts it converts to an
  integer: decimal digits with an optional sign, between optional spaces, with an optional
  fraction of zeros.\<close>

definition sqlite_integer_text :: "string \<Rightarrow> int option" where
  "sqlite_integer_text s =
     (let t = rev (dropWhile (\<lambda>c. c = CHR '' '') (rev (dropWhile (\<lambda>c. c = CHR '' '') s)));
          whole = takeWhile (\<lambda>c. c \<noteq> CHR ''.'') t;
          fraction = dropWhile (\<lambda>c. c \<noteq> CHR ''.'') t
      in if fraction = [] \<or> list_all (\<lambda>c. c = CHR ''0'') (tl fraction)
         then ParseInt whole else None)"

definition sample_env :: env where
  "sample_env = \<lparr>listsize = 5, caching = True,
                  headers = [(''X-Frame-Options'', ''SAMEORIGIN'')],
                  is_ipv4 = (\<lambda>ip. ip \<in> set [''192.0.2.10'', ''198.51.100.1'', ''198.51.100.2'']),
                  geo_city = sample_geo,
                  random_order = (\<lambda>mirror. mirror),
                  random_tier = (\<lambda>prio mirror. 7 - mirror),
                  elapsed = ''1.2ms'',
                  text_equals_integer = (\<lambda>s n. sqlite_integer_text s = Some n)\<rparr>"

definition get_request :: "string \<Rightarrow> string \<Rightarrow> string \<Rightarrow> string \<Rightarrow> request" where
  "get_request arch release repo ip =
     \<lparr>RemoteAddr = ''203.0.113.5:40000'',
      QueryArgs = [(''arch'', arch), (''release'', release), (''repo'', repo), (''ip'', ip)]\<rparr>"

definition empty_cache :: cache where
  "empty_cache = \<lparr>entries = Map.empty, HitCount = 0, MissCount = 0\<rparr>"

text \<open>The mirrors of repository 2 all disabled.\<close>

definition disabled_db :: db where
  "disabled_db = selection_db\<lparr>mirrors := map (\<lambda>m. m\<lparr>m_enabled := 0\<rparr>) (mirrors selection_db)\<rparr>"

definition warm_cache :: cache where
  "warm_cache = \<lparr>entries = [''24EUDEBY'' \<mapsto>
                    (''http://a.example.org/centos/8/BaseOS/x86_64/os/'' @ [nl], 1700003600)],
                  HitCount = 0, MissCount = 1\<rparr>"

section \<open>Properties of the checker pipeline\<close>

subsection \<open>Probe results\<close>

lemma repository_timestamp_non_200:
  "net (url @ ''/repodata/repomd.xml'') = Response code body \<Longrightarrow> code \<noteq> 200 \<Longrightarrow>
   repository_timestamp net url = (0, code)"
  by (simp add: repository_timestamp_def)

lemma repository_timestamp_parsed:
  "net (url @ ''/repodata/repomd.xml'') = Response 200 body \<Longrightarrow>
   FindStringSubmatch body = Some ds \<Longrightarrow> ParseInt ds = Some t \<Longrightarrow>
   repository_timestamp net url = (t, 200)"
  by (simp add: repository_timestamp_def)

lemma repository_timestamp_no_tag:
  "net (url @ ''/repodata/repomd.xml'') = Response 200 body \<Longrightarrow>
   FindStringSubmatch body = None \<Longrightarrow>
   repository_timestamp net url = (0, - 4)"
  by (simp add: repository_timestamp_def)

lemma repository_timestamp_range_error:
  "net (url @ ''/repodata/repomd.xml'') = Response 200 body \<Longrightarrow>
   FindStringSubmatch body = Some ds \<Longrightarrow> ParseInt ds = None \<Longrightarrow>
   repository_timestamp net url = (0, 200)"
  by (simp add: repository_timestamp_def)

text \<open>C1, as stated, fails: a probe answered with HTTP 404 yields timestamp 0, and the
  update writes it over the timestamp of the earlier successful check (1600000000).\<close>

theorem C1_timestamp_overwritten_counterexample:
  "execute_test net_404 1700000000 sample_task = Some result_404
   \<and> map s_timestamp (status sample_checker_db) = [Some 1600000000, Some 1600000050]
   \<and> map s_timestamp (status (update_mirror_status result_404 1700000005 sample_checker_db))
       = [Some 0, Some 1600000050]
   \<and> map s_result (status (update_mirror_status result_404 1700000005 sample_checker_db))
       = [Some 404, Some 200]"
  by (simp add: execute_test_def repository_timestamp_def net_404_def sample_task_def
      sample_repomd_url_def result_404_def update_mirror_status_def update_row_def
      sample_checker_db_def sample_status_def other_status_def)

text \<open>C1, amended: for a valid non-ISO task whose mirror answers HTTP 404 for repomd.xml,
  the probe emits the result (timestamp 0, outcome 404), and the update sets, in every
  Status row of that mirror and repository, timestamp to 0, checked to the time of the
  update and result to 404; every other row and the other tables are unchanged.\<close>

theorem C1_http_404_sets_result_and_zero_timestamp:
  assumes "t_Valid task" and "\<not> t_Iso task"
    and "net (t_URL task @ ''/repodata/repomd.xml'') = Response 404 body"
  shows "execute_test net now task
           = Some \<lparr>cr_MirrorID = t_MirrorID task, cr_RepoID = t_RepoID task,
                   cr_Timestamp = 0, cr_Result = 404\<rparr>
         \<and> update_mirror_status
             \<lparr>cr_MirrorID = t_MirrorID task, cr_RepoID = t_RepoID task,
              cr_Timestamp = 0, cr_Result = 404\<rparr> now' d
           = d\<lparr>status :=
                 map (\<lambda>s. if s_mirror_id s = t_MirrorID task \<and> s_repo_id s = t_RepoID task
                           then s\<lparr>s_timestamp := Some 0, s_checked := now', s_result := Some 404\<rparr>
                           else s) (status d)\<rparr>"
proof -
  have "repository_timestamp net (t_URL task) = (0, 404)"
    using assms(3) by (simp add: repository_timestamp_non_200)
  then have "execute_test net now task
           = Some \<lparr>cr_MirrorID = t_MirrorID task, cr_RepoID = t_RepoID task,
                   cr_Timestamp = 0, cr_Result = 404\<rparr>"
    using assms(1,2) by (simp add: execute_test_def)
  moreover have "update_row \<lparr>cr_MirrorID = t_MirrorID task, cr_RepoID = t_RepoID task,
              cr_Timestamp = 0, cr_Result = 404\<rparr> now'
       = (\<lambda>s. if s_mirror_id s = t_MirrorID task \<and> s_repo_id s = t_RepoID task
                           then s\<lparr>s_timestamp := Some 0, s_checked := now', s_result := Some 404\<rparr>
                           else s)"
    by (rule ext) (simp add: update_row_def)
  ultimately show ?thesis
    by (simp add: update_mirror_status_def)
qed

theorem C1_http_404_witness:
  "t_Valid sample_task \<and> \<not> t_Iso sample_task
   \<and> net_404 (t_URL sample_task @ ''/repodata/repomd.xml'') = Response 404 ''Not Found''
   \<and> execute_test net_404 1700000000 sample_task = Some result_404
   \<and> status (update_mirror_status result_404 1700000005 sample_checker_db)
       = [sample_status\<lparr>s_timestamp := Some 0, s_checked := 1700000005, s_result := Some 404\<rparr>,
          other_status]"
  using C1_http_404_sets_result_and_zero_timestamp
          [of sample_task net_404 "''Not Found''" 1700000000 1700000005 sample_checker_db]
  by (simp add: net_404_def sample_task_def sample_repomd_url_def result_404_def
      sample_checker_db_def sample_status_def other_status_def)

text \<open>C3 at the failing input: repomd.xml is served with HTTP 200 and a timestamp tag whose
  digits exceed the signed 64-bit range. The tag matches, the conversion fails, and the
  probe emits outcome 200 with timestamp 0 where the claim has outcome -4.\<close>

theorem C3_unparsable_digits_emit_200:
  "FindStringSubmatch ''<repomd><timestamp>9223372036854775808</timestamp></repomd>''
     = Some ''9223372036854775808''
   \<and> ParseInt ''9223372036854775808'' = None
   \<and> execute_test net_huge_timestamp 1700000000 sample_task
     = Some \<lparr>cr_MirrorID = 1, cr_RepoID = 1, cr_Timestamp = 0, cr_Result = 200\<rparr>"
  by (simp add: execute_test_def repository_timestamp_def net_huge_timestamp_def
      sample_task_def sample_repomd_url_def match_timestamp_at_def is_digit_def
      ParseInt_def nat_of_digits_def digit_val_def)

subsection \<open>Scheduler\<close>










subsection \<open>Committer\<close>

lemma reachable_never_commits:
  "reachable d p \<Longrightarrow> \<not> p_closed p \<and> p_commits p = 0 \<and> p_pc p \<noteq> AtCommit"
proof (induction rule: reachable.induct)
  case init
  show ?case by simp
next
  case (committer p now p')
  then show ?case
    by (auto simp: committer_step_def split: committer_pc.splits list.splits if_splits)
next
  case (probe p cr p')
  then show ?case
    by (auto simp: send_result_def split: if_splits)
qed

lemma reachable_drain_never_left:
  assumes "reachable d p" and "p_pc p = InDrain"
  shows "committer_step now p = Blocked
         \<or> (\<exists>p'. committer_step now p = Stepped p' \<and> p_pc p' = InDrain)"
  using reachable_never_commits [OF assms(1)] assms(2)
  by (cases "p_resultchan p") (simp_all add: committer_step_def)

lemma reachable_empty_drain_blocks:
  assumes "reachable d p" and "p_pc p = InDrain" and "p_resultchan p = []"
  shows "committer_step now p = Blocked"
  using reachable_never_commits [OF assms(1)] assms(2,3)
  by (simp add: committer_step_def)

lemma committer_run_blocked_stays:
  "committer_run n now p = Blocked \<Longrightarrow> committer_run (n + k) now p = Blocked"
proof (induction n arbitrary: p)
  case 0
  then show ?case by simp
next
  case (Suc n)
  then show ?case by (cases "committer_step now p") simp_all
qed

lemma committer_run_drain:
  "p_pc p = InDrain \<Longrightarrow> p_resultchan p = rs \<Longrightarrow>
   committer_run (length rs) now p
     = Stepped (p\<lparr>p_resultchan := [],
                  p_db := fold (\<lambda>r d. update_mirror_status r now d) rs (p_db p)\<rparr>)"
proof (induction rs arbitrary: p)
  case Nil
  then show ?case by simp
next
  case (Cons r rs)
  have step: "committer_step now p
        = Stepped (p\<lparr>p_resultchan := rs, p_db := update_mirror_status r now (p_db p)\<rparr>)"
    using Cons.prems by (simp add: committer_step_def)
  have "committer_run (length rs) now
          (p\<lparr>p_resultchan := rs, p_db := update_mirror_status r now (p_db p)\<rparr>)
        = Stepped (p\<lparr>p_resultchan := [],
             p_db := fold (\<lambda>r d. update_mirror_status r now d) rs
                       (update_mirror_status r now (p_db p))\<rparr>)"
    using Cons.IH [of "p\<lparr>p_resultchan := rs, p_db := update_mirror_status r now (p_db p)\<rparr>"]
      Cons.prems by simp
  then show ?case using step by simp
qed

text \<open>C2 at the failing input: the result queue holds ten results (half its capacity) at
  a tick of the committer and nothing else arrives. After the trigger and ten receives the
  committer is still inside the drain loop, with the queue empty, no commit made, and its
  next step waits on the channel: it neither commits nor returns to its tick.\<close>

theorem C2_drain_blocks_on_empty_queue:
  "length (p_resultchan half_full) = chan_cap div 2
   \<and> committer_run 11 1700000005 half_full = Stepped drained
   \<and> p_pc drained = InDrain \<and> p_resultchan drained = [] \<and> p_commits drained = 0
   \<and> committer_step 1700000005 drained = Blocked
   \<and> committer_run 12 1700000005 half_full = Blocked"
proof -
  have len: "length ten_results = 10"
    by (simp add: ten_results_def)
  have trigger: "committer_step 1700000005 half_full = Stepped (half_full\<lparr>p_pc := InDrain\<rparr>)"
    by (simp add: committer_step_def half_full_def chan_cap_def len)
  have "committer_run (length ten_results) 1700000005 (half_full\<lparr>p_pc := InDrain\<rparr>)
          = Stepped drained"
    using committer_run_drain [of "half_full\<lparr>p_pc := InDrain\<rparr>" ten_results 1700000005]
    by (simp add: half_full_def drained_def)
  then have "committer_run (Suc (length ten_results)) 1700000005 half_full = Stepped drained"
    using trigger by simp
  moreover have "Suc (length ten_results) = 11"
    by (simp add: len)
  ultimately have run: "committer_run 11 1700000005 half_full = Stepped drained"
    by (simp only:)
  have blocked: "committer_step 1700000005 drained = Blocked"
    by (simp add: committer_step_def drained_def)
  have "committer_run (11 + 1) 1700000005 half_full = Blocked"
  proof -
    have "committer_run (Suc 0) 1700000005 drained = Blocked"
      using blocked by simp
    moreover have "\<And>n p q k. committer_run n 1700000005 p = Stepped q \<Longrightarrow>
        committer_run (n + k) 1700000005 p = committer_run k 1700000005 q"
    proof -
      fix n p q k
      show "committer_run n 1700000005 p = Stepped q \<Longrightarrow>
        committer_run (n + k) 1700000005 p = committer_run k 1700000005 q"
      proof (induction n arbitrary: p)
        case 0
        then show ?case by simp
      next
        case (Suc n)
        then show ?case by (cases "committer_step 1700000005 p") simp_all
      qed
    qed
    ultimately show ?thesis using run by (metis One_nat_def)
  qed
  then have run12: "committer_run 12 1700000005 half_full = Blocked"
    by simp
  show ?thesis
    using run blocked run12
    by (simp add: half_full_def drained_def chan_cap_def len)
qed

section \<open>Properties of the selection engine\<close>

subsection \<open>Required parameters\<close>

lemma missing_parameter_first:
  "missing_parameter req =
     (if Peek req ''arch'' = [] then Some ''arch''
      else if Peek req ''release'' = [] then Some ''release''
      else if Peek req ''repo'' = [] then Some ''repo''
      else None)"
  by (simp add: missing_parameter_def)

text \<open>C9: a request to the selection endpoint in which arch, release or repo is absent or
  empty is answered with status 400 and the body \<open>"<key> not specified\n"\<close>, where the key
  is the first missing one in the order arch, release, repo; the cache is not touched.\<close>

theorem C9_missing_parameter_400:
  assumes "Peek req ''arch'' = [] \<or> Peek req ''release'' = [] \<or> Peek req ''repo'' = []"
  shows "StatusCode (fst (http_handler_root e d now req c)) = 400
         \<and> Body (fst (http_handler_root e d now req c))
             = (if Peek req ''arch'' = [] then ''arch''
                else if Peek req ''release'' = [] then ''release''
                else ''repo'') @ '' not specified'' @ [nl]
         \<and> snd (http_handler_root e d now req c) = c"
  using assms by (auto simp: http_handler_root_def missing_parameter_first Let_def)

theorem C9_missing_repo_witness:
  "Peek \<lparr>RemoteAddr = ''203.0.113.5:40000'',
         QueryArgs = [(''arch'', ''x86_64''), (''release'', ''8'')]\<rparr> ''repo'' = []
   \<and> StatusCode (fst (http_handler_root sample_env selection_db 1700000000
        \<lparr>RemoteAddr = ''203.0.113.5:40000'',
         QueryArgs = [(''arch'', ''x86_64''), (''release'', ''8'')]\<rparr> empty_cache)) = 400
   \<and> Body (fst (http_handler_root sample_env selection_db 1700000000
        \<lparr>RemoteAddr = ''203.0.113.5:40000'',
         QueryArgs = [(''arch'', ''x86_64''), (''release'', ''8'')]\<rparr> empty_cache))
       = ''repo not specified'' @ [nl]"
  using C9_missing_parameter_400 [of "\<lparr>RemoteAddr = ''203.0.113.5:40000'',
         QueryArgs = [(''arch'', ''x86_64''), (''release'', ''8'')]\<rparr>"
         sample_env selection_db 1700000000 empty_cache]
  by (simp add: Peek_def)

subsection \<open>Cache\<close>

lemma cache_Get_entries: "entries (snd (cache_Get now key c)) = entries c"
  by (simp add: cache_Get_def split: option.splits prod.splits)

lemma cache_Get_miss:
  "fst (cache_Get now key c) = None \<Longrightarrow> cache_Get now key c = (None, c\<lparr>MissCount := MissCount c + 1\<rparr>)"
  by (simp add: cache_Get_def split: option.splits prod.splits if_splits)

lemma cache_Get_hit:
  "fst (cache_Get now key c) = Some v \<Longrightarrow> cache_Get now key c = (Some v, c\<lparr>HitCount := HitCount c + 1\<rparr>)"
  by (simp add: cache_Get_def split: option.splits prod.splits if_splits)

lemma select_and_respond_no_mirrors:
  "mirrors_with_repo e d repoid = [] \<Longrightarrow>
   select_and_respond e d now req clientip clientloc ipversion repoid repopath is_altarch hdr c
     = (\<lparr>StatusCode = 404, Body = [], Header = hdr\<rparr>, c)"
  by (simp add: select_and_respond_def)

lemma select_and_respond_cache:
  "snd (select_and_respond e d now req clientip clientloc ipversion repoid repopath is_altarch hdr c)
     = (if caching e \<and> mirrors_with_repo e d repoid \<noteq> []
           \<and> Body (fst (select_and_respond e d now req clientip clientloc ipversion repoid
                          repopath is_altarch hdr c)) \<noteq> []
        then cache_Set now (cachekey repoid ipversion clientloc)
               (Body (fst (select_and_respond e d now req clientip clientloc ipversion repoid
                             repopath is_altarch hdr c))) 3600 c
        else c)"
  by (simp add: select_and_respond_def Let_def)

text \<open>What the handler does to the entries of the cache, in one equation.\<close>

lemma http_handler_root_entries:
  assumes "get_repo_id e d (Peek req ''release'') (Peek req ''repo'') (Peek req ''arch'')
             = (repoid, repopath, is_altarch)"
    and "clientip = (if Peek req ''ip'' \<noteq> [] then Peek req ''ip'' else RemoteAddr req)"
    and "key = cachekey repoid (IPversion e clientip) (get_ip_location e clientip)"
  shows "entries (snd (http_handler_root e d now req c))
         = (if caching e \<and> missing_parameter req = None \<and> 0 < repoid
               \<and> fst (cache_Get now key c) = None
               \<and> mirrors_with_repo e d repoid \<noteq> []
               \<and> Body (fst (http_handler_root e d now req c)) \<noteq> []
            then (entries c)(key \<mapsto> (Body (fst (http_handler_root e d now req c)), now + 3600))
            else entries c)"
proof (cases "missing_parameter req")
  case (Some k)
  then show ?thesis by (simp add: http_handler_root_def Let_def)
next
  case None
  show ?thesis
  proof (cases "0 < repoid")
    case False
    then show ?thesis using None assms(1) by (simp add: http_handler_root_def Let_def)
  next
    case True
    note pos = this
    show ?thesis
    proof (cases "caching e")
      case False
      then show ?thesis
        using None assms pos
        by (simp add: http_handler_root_def Let_def select_and_respond_cache)
    next
      case True
      note on = this
      show ?thesis
      proof (cases "fst (cache_Get now key c)")
        case (Some v)
        then show ?thesis
          using None assms pos on cache_Get_hit [OF Some]
          by (simp add: http_handler_root_def Let_def)
      next
        case miss: None
        show ?thesis
          using None assms pos on cache_Get_miss [OF miss]
          by (simp add: http_handler_root_def Let_def select_and_respond_cache cache_Set_def)
      qed
    qed
  qed
qed

text \<open>C7: with caching enabled, the handler changes the entries of the cache in one case
  only: the request has its parameters, the repository resolves, the cache gave no live
  entry, the repository has mirrors and the rendered body is non-empty; the body is then
  stored under the key of the request (repo id, IP version, continent, country, region)
  with expiry 3600 seconds ahead. So a repository with zero mirrors stores nothing, and a
  cache without empty bodies stays so.\<close>

theorem C7_cache_stores_nonempty_bodies_only:
  assumes "caching e"
    and "get_repo_id e d (Peek req ''release'') (Peek req ''repo'') (Peek req ''arch'')
           = (repoid, repopath, is_altarch)"
    and "clientip = (if Peek req ''ip'' \<noteq> [] then Peek req ''ip'' else RemoteAddr req)"
    and "key = cachekey repoid (IPversion e clientip) (get_ip_location e clientip)"
    and "http_handler_root e d now req c = (resp, c')"
  shows "entries c'
           = (if missing_parameter req = None \<and> 0 < repoid
                 \<and> fst (cache_Get now key c) = None
                 \<and> mirrors_with_repo e d repoid \<noteq> []
                 \<and> Body resp \<noteq> []
              then (entries c)(key \<mapsto> (Body resp, now + 3600))
              else entries c)
         \<and> (mirrors_with_repo e d repoid = [] \<longrightarrow> entries c' = entries c)
         \<and> ((\<forall>k v t. entries c k = Some (v, t) \<longrightarrow> v \<noteq> [])
              \<longrightarrow> (\<forall>k v t. entries c' k = Some (v, t) \<longrightarrow> v \<noteq> []))"
proof -
  have eq: "entries c'
           = (if missing_parameter req = None \<and> 0 < repoid
                 \<and> fst (cache_Get now key c) = None
                 \<and> mirrors_with_repo e d repoid \<noteq> []
                 \<and> Body resp \<noteq> []
              then (entries c)(key \<mapsto> (Body resp, now + 3600))
              else entries c)"
    using http_handler_root_entries [OF assms(2,3,4), of now c] assms(1,5) by simp
  then have "mirrors_with_repo e d repoid = [] \<longrightarrow> entries c' = entries c"
    by simp
  moreover have "(\<forall>k v t. entries c k = Some (v, t) \<longrightarrow> v \<noteq> [])
              \<longrightarrow> (\<forall>k v t. entries c' k = Some (v, t) \<longrightarrow> v \<noteq> [])"
    using eq by (auto split: if_splits)
  ultimately show ?thesis using eq by blast
qed

theorem C7_cache_stores_witness:
  "caching sample_env
   \<and> get_repo_id sample_env selection_db ''8'' ''BaseOS'' ''x86_64'' = (2, ''8'', False)
   \<and> Body (fst (http_handler_root sample_env selection_db 1700000000
              (get_request ''x86_64'' ''8'' ''BaseOS'' ''192.0.2.10'') empty_cache))
       = ''http://a.example.org/centos/8/BaseOS/x86_64/os/'' @ [nl]
         @ ''http://c.example.com/centos/8/BaseOS/x86_64/os/'' @ [nl]
         @ ''http://e.example.ca/centos/8/BaseOS/x86_64/os/'' @ [nl]
   \<and> entries (snd (http_handler_root sample_env selection_db 1700000000
              (get_request ''x86_64'' ''8'' ''BaseOS'' ''192.0.2.10'') empty_cache))
       = (entries empty_cache)(''24EUDEBY'' \<mapsto>
            (''http://a.example.org/centos/8/BaseOS/x86_64/os/'' @ [nl]
             @ ''http://c.example.com/centos/8/BaseOS/x86_64/os/'' @ [nl]
             @ ''http://e.example.ca/centos/8/BaseOS/x86_64/os/'' @ [nl], 1700003600))
   \<and> get_repo_id sample_env selection_db ''8.0'' ''BaseOS'' ''x86_64'' = (2, ''8'', False)
   \<and> Body (fst (http_handler_root sample_env selection_db 1700000000
              (get_request ''x86_64'' ''8.0'' ''BaseOS'' ''192.0.2.10'') empty_cache))
       = ''http://a.example.org/centos/8/BaseOS/x86_64/os/'' @ [nl]
         @ ''http://c.example.com/centos/8/BaseOS/x86_64/os/'' @ [nl]
         @ ''http://e.example.ca/centos/8/BaseOS/x86_64/os/'' @ [nl]
   \<and> entries (snd (http_handler_root sample_env selection_db 1700000000
              (get_request ''x86_64'' ''8.0'' ''BaseOS'' ''192.0.2.10'') empty_cache))
       = (entries empty_cache)(''24EUDEBY'' \<mapsto>
            (''http://a.example.org/centos/8/BaseOS/x86_64/os/'' @ [nl]
             @ ''http://c.example.com/centos/8/BaseOS/x86_64/os/'' @ [nl]
             @ ''http://e.example.ca/centos/8/BaseOS/x86_64/os/'' @ [nl], 1700003600))"
proof -
  have repo: "get_repo_id sample_env selection_db ''8'' ''BaseOS'' ''x86_64'' = (2, ''8'', False)"
    by code_simp
  have body: "Body (fst (http_handler_root sample_env selection_db 1700000000
              (get_request ''x86_64'' ''8'' ''BaseOS'' ''192.0.2.10'') empty_cache))
       = ''http://a.example.org/centos/8/BaseOS/x86_64/os/'' @ [nl]
         @ ''http://c.example.com/centos/8/BaseOS/x86_64/os/'' @ [nl]
         @ ''http://e.example.ca/centos/8/BaseOS/x86_64/os/'' @ [nl]"
    by code_simp
  have pre: "caching sample_env
     \<and> missing_parameter (get_request ''x86_64'' ''8'' ''BaseOS'' ''192.0.2.10'') = None
     \<and> get_repo_id sample_env selection_db
          (Peek (get_request ''x86_64'' ''8'' ''BaseOS'' ''192.0.2.10'') ''release'')
          (Peek (get_request ''x86_64'' ''8'' ''BaseOS'' ''192.0.2.10'') ''repo'')
          (Peek (get_request ''x86_64'' ''8'' ''BaseOS'' ''192.0.2.10'') ''arch'') = (2, ''8'', False)
     \<and> Peek (get_request ''x86_64'' ''8'' ''BaseOS'' ''192.0.2.10'') ''ip'' = ''192.0.2.10''
     \<and> cachekey 2 (IPversion sample_env ''192.0.2.10'') (get_ip_location sample_env ''192.0.2.10'')
         = ''24EUDEBY''
     \<and> mirrors_with_repo sample_env selection_db 2 \<noteq> []"
    by code_simp
  have miss: "fst (cache_Get 1700000000 ''24EUDEBY'' empty_cache) = None"
    by (simp add: cache_Get_def empty_cache_def)
  have nonempty: "''http://a.example.org/centos/8/BaseOS/x86_64/os/'' @ [nl]
         @ ''http://c.example.com/centos/8/BaseOS/x86_64/os/'' @ [nl]
         @ ''http://e.example.ca/centos/8/BaseOS/x86_64/os/'' @ [nl] \<noteq> []"
    by simp
  have plain: "caching sample_env
   \<and> get_repo_id sample_env selection_db ''8'' ''BaseOS'' ''x86_64'' = (2, ''8'', False)
   \<and> Body (fst (http_handler_root sample_env selection_db 1700000000
              (get_request ''x86_64'' ''8'' ''BaseOS'' ''192.0.2.10'') empty_cache))
       = ''http://a.example.org/centos/8/BaseOS/x86_64/os/'' @ [nl]
         @ ''http://c.example.com/centos/8/BaseOS/x86_64/os/'' @ [nl]
         @ ''http://e.example.ca/centos/8/BaseOS/x86_64/os/'' @ [nl]
   \<and> entries (snd (http_handler_root sample_env selection_db 1700000000
              (get_request ''x86_64'' ''8'' ''BaseOS'' ''192.0.2.10'') empty_cache))
       = (entries empty_cache)(''24EUDEBY'' \<mapsto>
            (''http://a.example.org/centos/8/BaseOS/x86_64/os/'' @ [nl]
             @ ''http://c.example.com/centos/8/BaseOS/x86_64/os/'' @ [nl]
             @ ''http://e.example.ca/centos/8/BaseOS/x86_64/os/'' @ [nl], 1700003600))"
    using C7_cache_stores_nonempty_bodies_only
      [where e = sample_env and d = selection_db
         and req = "get_request ''x86_64'' ''8'' ''BaseOS'' ''192.0.2.10''"
         and repoid = 2 and repopath = "''8''" and is_altarch = False
         and clientip = "''192.0.2.10''" and key = "''24EUDEBY''"
         and now = 1700000000 and c = empty_cache
         and resp = "fst (http_handler_root sample_env selection_db 1700000000
              (get_request ''x86_64'' ''8'' ''BaseOS'' ''192.0.2.10'') empty_cache)"
         and c' = "snd (http_handler_root sample_env selection_db 1700000000
              (get_request ''x86_64'' ''8'' ''BaseOS'' ''192.0.2.10'') empty_cache)"]
      repo pre miss nonempty
    unfolding body by simp

  have repo': "get_repo_id sample_env selection_db ''8.0'' ''BaseOS'' ''x86_64'' = (2, ''8'', False)"
    by code_simp
  have body': "Body (fst (http_handler_root sample_env selection_db 1700000000
              (get_request ''x86_64'' ''8.0'' ''BaseOS'' ''192.0.2.10'') empty_cache))
       = ''http://a.example.org/centos/8/BaseOS/x86_64/os/'' @ [nl]
         @ ''http://c.example.com/centos/8/BaseOS/x86_64/os/'' @ [nl]
         @ ''http://e.example.ca/centos/8/BaseOS/x86_64/os/'' @ [nl]"
    by code_simp
  have pre': "caching sample_env
     \<and> missing_parameter (get_request ''x86_64'' ''8.0'' ''BaseOS'' ''192.0.2.10'') = None
     \<and> get_repo_id sample_env selection_db
          (Peek (get_request ''x86_64'' ''8.0'' ''BaseOS'' ''192.0.2.10'') ''release'')
          (Peek (get_request ''x86_64'' ''8.0'' ''BaseOS'' ''192.0.2.10'') ''repo'')
          (Peek (get_request ''x86_64'' ''8.0'' ''BaseOS'' ''192.0.2.10'') ''arch'') = (2, ''8'', False)
     \<and> Peek (get_request ''x86_64'' ''8.0'' ''BaseOS'' ''192.0.2.10'') ''ip'' = ''192.0.2.10''
     \<and> cachekey 2 (IPversion sample_env ''192.0.2.10'') (get_ip_location sample_env ''192.0.2.10'')
         = ''24EUDEBY''
     \<and> mirrors_with_repo sample_env selection_db 2 \<noteq> []"
    by code_simp
  have miss': "fst (cache_Get 1700000000 ''24EUDEBY'' empty_cache) = None"
    by (simp add: cache_Get_def empty_cache_def)
  have nonempty': "''http://a.example.org/centos/8/BaseOS/x86_64/os/'' @ [nl]
         @ ''http://c.example.com/centos/8/BaseOS/x86_64/os/'' @ [nl]
         @ ''http://e.example.ca/centos/8/BaseOS/x86_64/os/'' @ [nl] \<noteq> []"
    by simp
  have real_literal: "caching sample_env
   \<and> get_repo_id sample_env selection_db ''8.0'' ''BaseOS'' ''x86_64'' = (2, ''8'', False)
   \<and> Body (fst (http_handler_root sample_env selection_db 1700000000
              (get_request ''x86_64'' ''8.0'' ''BaseOS'' ''192.0.2.10'') empty_cache))
       = ''http://a.example.org/centos/8/BaseOS/x86_64/os/'' @ [nl]
         @ ''http://c.example.com/centos/8/BaseOS/x86_64/os/'' @ [nl]
         @ ''http://e.example.ca/centos/8/BaseOS/x86_64/os/'' @ [nl]
   \<and> entries (snd (http_handler_root sample_env selection_db 1700000000
              (get_request ''x86_64'' ''8.0'' ''BaseOS'' ''192.0.2.10'') empty_cache))
       = (entries empty_cache)(''24EUDEBY'' \<mapsto>
            (''http://a.example.org/centos/8/BaseOS/x86_64/os/'' @ [nl]
             @ ''http://c.example.com/centos/8/BaseOS/x86_64/os/'' @ [nl]
             @ ''http://e.example.ca/centos/8/BaseOS/x86_64/os/'' @ [nl], 1700003600))"
    using C7_cache_stores_nonempty_bodies_only
      [where e = sample_env and d = selection_db
         and req = "get_request ''x86_64'' ''8.0'' ''BaseOS'' ''192.0.2.10''"
         and repoid = 2 and repopath = "''8''" and is_altarch = False
         and clientip = "''192.0.2.10''" and key = "''24EUDEBY''"
         and now = 1700000000 and c = empty_cache
         and resp = "fst (http_handler_root sample_env selection_db 1700000000
              (get_request ''x86_64'' ''8.0'' ''BaseOS'' ''192.0.2.10'') empty_cache)"
         and c' = "snd (http_handler_root sample_env selection_db 1700000000
              (get_request ''x86_64'' ''8.0'' ''BaseOS'' ''192.0.2.10'') empty_cache)"]
      repo' pre' miss' nonempty'
    unfolding body' by simp
  show ?thesis
    using plain real_literal by simp
qed

subsection \<open>Repositories without mirrors\<close>

text \<open>C4, as stated, fails when caching is enabled: the cache is read before the mirrors
  are queried. With a live entry under the key of the request the response is the cached
  body with status 200 although the repository has no enabled mirror left, and without
  one the response is 404 but a lookup (a miss) has been counted.\<close>

theorem C4_cache_consulted_first_counterexample:
  "get_repo_id sample_env disabled_db ''8'' ''BaseOS'' ''x86_64'' = (2, ''8'', False)
   \<and> mirrors_with_repo sample_env disabled_db 2 = []
   \<and> StatusCode (fst (http_handler_root sample_env disabled_db 1700000100
        (get_request ''x86_64'' ''8'' ''BaseOS'' ''192.0.2.10'') warm_cache)) = 200
   \<and> Body (fst (http_handler_root sample_env disabled_db 1700000100
        (get_request ''x86_64'' ''8'' ''BaseOS'' ''192.0.2.10'') warm_cache))
       = ''http://a.example.org/centos/8/BaseOS/x86_64/os/'' @ [nl]
   \<and> HitCount (snd (http_handler_root sample_env disabled_db 1700000100
        (get_request ''x86_64'' ''8'' ''BaseOS'' ''192.0.2.10'') warm_cache)) = 1
   \<and> StatusCode (fst (http_handler_root sample_env disabled_db 1700000100
        (get_request ''x86_64'' ''8'' ''BaseOS'' ''192.0.2.10'') empty_cache)) = 404
   \<and> LookupCount empty_cache = 0
   \<and> LookupCount (snd (http_handler_root sample_env disabled_db 1700000100
        (get_request ''x86_64'' ''8'' ''BaseOS'' ''192.0.2.10'') empty_cache)) = 1
   \<and> MissCount (snd (http_handler_root sample_env disabled_db 1700000100
        (get_request ''x86_64'' ''8'' ''BaseOS'' ''192.0.2.10'') empty_cache)) = 1"
  by code_simp

text \<open>C4, amended: for a request with its parameters whose repository resolves but has no
  enabled mirror, the response is 404 with an empty body unless caching is enabled and the
  cache holds a live entry under the key of the request, which is then served with status
  200. With caching disabled the cache is not touched; with caching enabled it is read
  first and one lookup is counted (a miss in the 404 case, a hit otherwise). Nothing is
  stored in either case.\<close>

theorem C4_no_mirrors_not_found:
  assumes "missing_parameter req = None"
    and "get_repo_id e d (Peek req ''release'') (Peek req ''repo'') (Peek req ''arch'')
           = (repoid, repopath, is_altarch)"
    and "0 < repoid"
    and "mirrors_with_repo e d repoid = []"
    and "clientip = (if Peek req ''ip'' \<noteq> [] then Peek req ''ip'' else RemoteAddr req)"
    and "key = cachekey repoid (IPversion e clientip) (get_ip_location e clientip)"
  shows "(\<not> caching e \<longrightarrow>
            StatusCode (fst (http_handler_root e d now req c)) = 404
            \<and> Body (fst (http_handler_root e d now req c)) = []
            \<and> snd (http_handler_root e d now req c) = c)
         \<and> (caching e \<and> fst (cache_Get now key c) = None \<longrightarrow>
            StatusCode (fst (http_handler_root e d now req c)) = 404
            \<and> Body (fst (http_handler_root e d now req c)) = []
            \<and> snd (http_handler_root e d now req c) = c\<lparr>MissCount := MissCount c + 1\<rparr>)
         \<and> (\<forall>body. caching e \<and> fst (cache_Get now key c) = Some body \<longrightarrow>
            StatusCode (fst (http_handler_root e d now req c)) = 200
            \<and> Body (fst (http_handler_root e d now req c)) = body
            \<and> snd (http_handler_root e d now req c) = c\<lparr>HitCount := HitCount c + 1\<rparr>)"
proof -
  have off: "\<not> caching e \<longrightarrow>
            StatusCode (fst (http_handler_root e d now req c)) = 404
            \<and> Body (fst (http_handler_root e d now req c)) = []
            \<and> snd (http_handler_root e d now req c) = c"
    using assms
    by (simp add: http_handler_root_def Let_def select_and_respond_no_mirrors)
  have miss: "caching e \<and> fst (cache_Get now key c) = None \<longrightarrow>
            StatusCode (fst (http_handler_root e d now req c)) = 404
            \<and> Body (fst (http_handler_root e d now req c)) = []
            \<and> snd (http_handler_root e d now req c) = c\<lparr>MissCount := MissCount c + 1\<rparr>"
  proof
    assume a: "caching e \<and> fst (cache_Get now key c) = None"
    then have "cache_Get now key c = (None, c\<lparr>MissCount := MissCount c + 1\<rparr>)"
      by (simp add: cache_Get_miss)
    then show "StatusCode (fst (http_handler_root e d now req c)) = 404
            \<and> Body (fst (http_handler_root e d now req c)) = []
            \<and> snd (http_handler_root e d now req c) = c\<lparr>MissCount := MissCount c + 1\<rparr>"
      using assms a
      by (simp add: http_handler_root_def Let_def select_and_respond_no_mirrors)
  qed
  have hit: "\<forall>body. caching e \<and> fst (cache_Get now key c) = Some body \<longrightarrow>
            StatusCode (fst (http_handler_root e d now req c)) = 200
            \<and> Body (fst (http_handler_root e d now req c)) = body
            \<and> snd (http_handler_root e d now req c) = c\<lparr>HitCount := HitCount c + 1\<rparr>"
  proof (intro allI impI)
    fix body
    assume a: "caching e \<and> fst (cache_Get now key c) = Some body"
    then have "cache_Get now key c = (Some body, c\<lparr>HitCount := HitCount c + 1\<rparr>)"
      by (simp add: cache_Get_hit)
    then show "StatusCode (fst (http_handler_root e d now req c)) = 200
            \<and> Body (fst (http_handler_root e d now req c)) = body
            \<and> snd (http_handler_root e d now req c) = c\<lparr>HitCount := HitCount c + 1\<rparr>"
      using assms a
      by (simp add: http_handler_root_def Let_def)
  qed
  show ?thesis using off miss hit by blast
qed

theorem C4_no_mirrors_witness:
  "missing_parameter (get_request ''x86_64'' ''8'' ''BaseOS'' ''192.0.2.10'') = None
   \<and> get_repo_id sample_env disabled_db ''8'' ''BaseOS'' ''x86_64'' = (2, ''8'', False)
   \<and> mirrors_with_repo sample_env disabled_db 2 = []
   \<and> caching sample_env
   \<and> fst (cache_Get 1700000100 ''24EUDEBY'' empty_cache) = None
   \<and> StatusCode (fst (http_handler_root sample_env disabled_db 1700000100
        (get_request ''x86_64'' ''8'' ''BaseOS'' ''192.0.2.10'') empty_cache)) = 404
   \<and> Body (fst (http_handler_root sample_env disabled_db 1700000100
        (get_request ''x86_64'' ''8'' ''BaseOS'' ''192.0.2.10'') empty_cache)) = []
   \<and> snd (http_handler_root sample_env disabled_db 1700000100
        (get_request ''x86_64'' ''8'' ''BaseOS'' ''192.0.2.10'') empty_cache)
       = empty_cache\<lparr>MissCount := MissCount empty_cache + 1\<rparr>
   \<and> fst (cache_Get 1700000100 ''24EUDEBY'' warm_cache)
       = Some (''http://a.example.org/centos/8/BaseOS/x86_64/os/'' @ [nl])
   \<and> StatusCode (fst (http_handler_root sample_env disabled_db 1700000100
        (get_request ''x86_64'' ''8'' ''BaseOS'' ''192.0.2.10'') warm_cache)) = 200
   \<and> StatusCode (fst (http_handler_root (sample_env\<lparr>caching := False\<rparr>) disabled_db 1700000100
        (get_request ''x86_64'' ''8'' ''BaseOS'' ''192.0.2.10'') warm_cache)) = 404
   \<and> snd (http_handler_root (sample_env\<lparr>caching := False\<rparr>) disabled_db 1700000100
        (get_request ''x86_64'' ''8'' ''BaseOS'' ''192.0.2.10'') warm_cache) = warm_cache
   \<and> get_repo_id sample_env disabled_db '' 8'' ''BaseOS'' ''x86_64'' = (2, ''8'', False)
   \<and> StatusCode (fst (http_handler_root sample_env disabled_db 1700000100
        (get_request ''x86_64'' '' 8'' ''BaseOS'' ''192.0.2.10'') empty_cache)) = 404
   \<and> snd (http_handler_root sample_env disabled_db 1700000100
        (get_request ''x86_64'' '' 8'' ''BaseOS'' ''192.0.2.10'') empty_cache)
       = empty_cache\<lparr>MissCount := MissCount empty_cache + 1\<rparr>"
proof -
  have spaced_pre: "missing_parameter (get_request ''x86_64'' '' 8'' ''BaseOS'' ''192.0.2.10'') = None
     \<and> get_repo_id sample_env disabled_db
          (Peek (get_request ''x86_64'' '' 8'' ''BaseOS'' ''192.0.2.10'') ''release'')
          (Peek (get_request ''x86_64'' '' 8'' ''BaseOS'' ''192.0.2.10'') ''repo'')
          (Peek (get_request ''x86_64'' '' 8'' ''BaseOS'' ''192.0.2.10'') ''arch'') = (2, ''8'', False)
     \<and> get_repo_id sample_env disabled_db '' 8'' ''BaseOS'' ''x86_64'' = (2, ''8'', False)
     \<and> Peek (get_request ''x86_64'' '' 8'' ''BaseOS'' ''192.0.2.10'') ''ip'' = ''192.0.2.10''
     \<and> cachekey 2 (IPversion sample_env ''192.0.2.10'') (get_ip_location sample_env ''192.0.2.10'')
         = ''24EUDEBY''
     \<and> mirrors_with_repo sample_env disabled_db 2 = []
     \<and> caching sample_env
     \<and> fst (cache_Get 1700000100 ''24EUDEBY'' empty_cache) = None"
    by code_simp
  have spaced: "get_repo_id sample_env disabled_db '' 8'' ''BaseOS'' ''x86_64'' = (2, ''8'', False)
   \<and> StatusCode (fst (http_handler_root sample_env disabled_db 1700000100
        (get_request ''x86_64'' '' 8'' ''BaseOS'' ''192.0.2.10'') empty_cache)) = 404
   \<and> snd (http_handler_root sample_env disabled_db 1700000100
        (get_request ''x86_64'' '' 8'' ''BaseOS'' ''192.0.2.10'') empty_cache)
       = empty_cache\<lparr>MissCount := MissCount empty_cache + 1\<rparr>"
    using C4_no_mirrors_not_found
        [where req = "get_request ''x86_64'' '' 8'' ''BaseOS'' ''192.0.2.10''" and d = disabled_db
           and repoid = 2 and repopath = "''8''" and is_altarch = False and e = sample_env
           and clientip = "''192.0.2.10''" and key = "''24EUDEBY''" and now = 1700000100
           and c = empty_cache]
      spaced_pre
    by simp
  have pre: "missing_parameter (get_request ''x86_64'' ''8'' ''BaseOS'' ''192.0.2.10'') = None
     \<and> get_repo_id sample_env disabled_db
          (Peek (get_request ''x86_64'' ''8'' ''BaseOS'' ''192.0.2.10'') ''release'')
          (Peek (get_request ''x86_64'' ''8'' ''BaseOS'' ''192.0.2.10'') ''repo'')
          (Peek (get_request ''x86_64'' ''8'' ''BaseOS'' ''192.0.2.10'') ''arch'') = (2, ''8'', False)
     \<and> get_repo_id sample_env disabled_db ''8'' ''BaseOS'' ''x86_64'' = (2, ''8'', False)
     \<and> Peek (get_request ''x86_64'' ''8'' ''BaseOS'' ''192.0.2.10'') ''ip'' = ''192.0.2.10''
     \<and> cachekey 2 (IPversion sample_env ''192.0.2.10'') (get_ip_location sample_env ''192.0.2.10'')
         = ''24EUDEBY''
     \<and> mirrors_with_repo sample_env disabled_db 2 = []"
    by code_simp
  have env: "caching sample_env \<and> \<not> caching (sample_env\<lparr>caching := False\<rparr>)
     \<and> IPversion (sample_env\<lparr>caching := False\<rparr>) = IPversion sample_env
     \<and> get_ip_location (sample_env\<lparr>caching := False\<rparr>) = get_ip_location sample_env
     \<and> mirrors_with_repo (sample_env\<lparr>caching := False\<rparr>) = mirrors_with_repo sample_env
     \<and> get_repo_id (sample_env\<lparr>caching := False\<rparr>) = get_repo_id sample_env"
    by (auto simp: sample_env_def IPversion_def get_ip_location_def mirrors_with_repo_def
        get_repo_id_def fun_eq_iff)
  have miss: "fst (cache_Get 1700000100 ''24EUDEBY'' empty_cache) = None"
    by (simp add: cache_Get_def empty_cache_def)
  have hit: "fst (cache_Get 1700000100 ''24EUDEBY'' warm_cache)
       = Some (''http://a.example.org/centos/8/BaseOS/x86_64/os/'' @ [nl])"
    by (simp add: cache_Get_def warm_cache_def)
  show ?thesis
    using C4_no_mirrors_not_found
        [where req = "get_request ''x86_64'' ''8'' ''BaseOS'' ''192.0.2.10''" and d = disabled_db
           and repoid = 2 and repopath = "''8''" and is_altarch = False and e = sample_env
           and clientip = "''192.0.2.10''" and key = "''24EUDEBY''" and now = 1700000100
           and c = empty_cache]
      C4_no_mirrors_not_found
        [where req = "get_request ''x86_64'' ''8'' ''BaseOS'' ''192.0.2.10''" and d = disabled_db
           and repoid = 2 and repopath = "''8''" and is_altarch = False and e = sample_env
           and clientip = "''192.0.2.10''" and key = "''24EUDEBY''" and now = 1700000100
           and c = warm_cache]
      C4_no_mirrors_not_found
        [where req = "get_request ''x86_64'' ''8'' ''BaseOS'' ''192.0.2.10''" and d = disabled_db
           and repoid = 2 and repopath = "''8''" and is_altarch = False
           and e = "sample_env\<lparr>caching := False\<rparr>"
           and clientip = "''192.0.2.10''" and key = "''24EUDEBY''" and now = 1700000100
           and c = warm_cache]
      pre env miss hit spaced
    by simp
qed

subsection \<open>Cache key\<close>

text \<open>C10: the cache key is the decimal repo id followed by IP version, continent, country
  and region with nothing in between, and the map from tuples to keys is not injective:
  the locations (NA, US, no region) and (NA, no country, region US) give the same key for
  the same repository and IP version. A request from the second location is then served
  the body cached for the first (a mirror in the US), where on its own it gets another
  body (a mirror in Canada).\<close>

theorem C10_cache_key_not_injective:
  "cachekey repoid ipversion clientloc
     = string_of_int repoid @ ipversion @ Continent clientloc @ Country clientloc @ Region clientloc
   \<and> loc_country_us \<noteq> loc_region_us
   \<and> cachekey 2 ''4'' loc_country_us = ''24NAUS''
   \<and> cachekey 2 ''4'' loc_region_us = ''24NAUS''
   \<and> Body (fst (http_handler_root (sample_env\<lparr>listsize := 1\<rparr>) selection_db 1700000000
        (get_request ''x86_64'' ''8'' ''BaseOS'' ''198.51.100.1'') empty_cache))
       = ''http://c.example.com/centos/8/BaseOS/x86_64/os/'' @ [nl]
   \<and> Body (fst (http_handler_root (sample_env\<lparr>listsize := 1\<rparr>) selection_db 1700000100
        (get_request ''x86_64'' ''8'' ''BaseOS'' ''198.51.100.2'') empty_cache))
       = ''http://e.example.ca/centos/8/BaseOS/x86_64/os/'' @ [nl]
   \<and> Body (fst (http_handler_root (sample_env\<lparr>listsize := 1\<rparr>) selection_db 1700000100
        (get_request ''x86_64'' ''8'' ''BaseOS'' ''198.51.100.2'')
        (snd (http_handler_root (sample_env\<lparr>listsize := 1\<rparr>) selection_db 1700000000
           (get_request ''x86_64'' ''8'' ''BaseOS'' ''198.51.100.1'') empty_cache))))
       = ''http://c.example.com/centos/8/BaseOS/x86_64/os/'' @ [nl]
   \<and> map_of (Header (fst (http_handler_root (sample_env\<lparr>listsize := 1\<rparr>) selection_db 1700000100
        (get_request ''x86_64'' ''8'' ''BaseOS'' ''198.51.100.2'')
        (snd (http_handler_root (sample_env\<lparr>listsize := 1\<rparr>) selection_db 1700000000
           (get_request ''x86_64'' ''8'' ''BaseOS'' ''198.51.100.1'') empty_cache)))))
        ''X-Cache-Hit'' = Some ''true''"
proof -
  have "loc_country_us \<noteq> loc_region_us"
    by (simp add: loc_country_us_def loc_region_us_def)
  moreover have "cachekey 2 ''4'' loc_country_us = ''24NAUS''
      \<and> cachekey 2 ''4'' loc_region_us = ''24NAUS''"
    by code_simp
  moreover have "Body (fst (http_handler_root (sample_env\<lparr>listsize := 1\<rparr>) selection_db 1700000000
        (get_request ''x86_64'' ''8'' ''BaseOS'' ''198.51.100.1'') empty_cache))
       = ''http://c.example.com/centos/8/BaseOS/x86_64/os/'' @ [nl]"
    by code_simp
  moreover have "Body (fst (http_handler_root (sample_env\<lparr>listsize := 1\<rparr>) selection_db 1700000100
        (get_request ''x86_64'' ''8'' ''BaseOS'' ''198.51.100.2'') empty_cache))
       = ''http://e.example.ca/centos/8/BaseOS/x86_64/os/'' @ [nl]"
    by code_simp
  moreover have "Body (fst (http_handler_root (sample_env\<lparr>listsize := 1\<rparr>) selection_db 1700000100
        (get_request ''x86_64'' ''8'' ''BaseOS'' ''198.51.100.2'')
        (snd (http_handler_root (sample_env\<lparr>listsize := 1\<rparr>) selection_db 1700000000
           (get_request ''x86_64'' ''8'' ''BaseOS'' ''198.51.100.1'') empty_cache))))
       = ''http://c.example.com/centos/8/BaseOS/x86_64/os/'' @ [nl]"
    by code_simp
  moreover have "map_of (Header (fst (http_handler_root (sample_env\<lparr>listsize := 1\<rparr>) selection_db 1700000100
        (get_request ''x86_64'' ''8'' ''BaseOS'' ''198.51.100.2'')
        (snd (http_handler_root (sample_env\<lparr>listsize := 1\<rparr>) selection_db 1700000000
           (get_request ''x86_64'' ''8'' ''BaseOS'' ''198.51.100.1'') empty_cache)))))
        ''X-Cache-Hit'' = Some ''true''"
    by code_simp
  ultimately show ?thesis
    by (simp only: cachekey_def simp_thms)
qed

subsection \<open>Narrowing\<close>

lemma full_mirror_urls_set:
  "set ids = set ids' \<Longrightarrow> ids \<noteq> [] \<Longrightarrow> ids' \<noteq> [] \<Longrightarrow>
   full_mirror_urls d ids release repo arch is_altarch
     = full_mirror_urls d ids' release repo arch is_altarch"
  by (simp add: full_mirror_urls_def eligible_def)

lemma nearby_mirrors_sample:
  "nearby_mirrors (sample_env\<lparr>random_tier := rt\<rparr>) selection_db bavaria ''4'' [1, 2, 3, 4, 5, 6] 5
     \<in> {[2, 1, 2, 1, 2], [2, 1, 2, 2, 1], [2, 2, 1, 1, 2], [2, 2, 1, 2, 1]}"
  by (auto simp add: nearby_mirrors_def ipv_column_def tier_rows_def eligible_def sql_limit_def
      selection_db_def sample_env_def bavaria_def
      mirror_a_def mirror_b_def mirror_c_def mirror_d_def mirror_e_def mirror_f_def
      split: if_splits)

text \<open>C5 at the failing input: list size 5, six enabled mirrors of the repository, a client
  in EU/DE/BY; mirror 2 (b.example.org) matches tier 1, mirror 1 (a.example.org) matches
  tier 2 at best, the others match nothing. Whatever the random values \<open>rt\<close>, the narrowed
  list has five entries made of these two mirrors only: mirror 2 comes first, and comes
  again after mirror 1, once for each tier it matches. The response then lists
  a.example.org before b.example.org, in the order of the mirrors table.\<close>

theorem C5_tier1_mirror_repeated_after_tier2:
  "mirrors_with_repo (sample_env\<lparr>random_tier := rt\<rparr>) selection_db 1 = [1, 2, 3, 4, 5, 6]
   \<and> listsize (sample_env\<lparr>random_tier := rt\<rparr>) = 5
   \<and> nearby_mirrors (sample_env\<lparr>random_tier := rt\<rparr>) selection_db bavaria ''4'' [1, 2, 3, 4, 5, 6] 5
       \<in> {[2, 1, 2, 1, 2], [2, 1, 2, 2, 1], [2, 2, 1, 1, 2], [2, 2, 1, 2, 1]}
   \<and> Body (fst (http_handler_root (sample_env\<lparr>random_tier := rt\<rparr>) selection_db 1700000000
        (get_request ''x86_64'' ''7'' ''os'' ''192.0.2.10'') empty_cache))
       = ''http://a.example.org/centos/7/os/x86_64/'' @ [nl]
         @ ''http://b.example.org/pub/centos/7/os/x86_64/'' @ [nl]"
proof -
  define e where "e = sample_env\<lparr>random_tier := rt\<rparr>"
  have env: "caching e \<and> listsize e = 5
     \<and> IPversion e = IPversion sample_env
     \<and> get_ip_location e = get_ip_location sample_env
     \<and> mirrors_with_repo e = mirrors_with_repo sample_env
     \<and> get_repo_id e = get_repo_id sample_env"
    by (auto simp: e_def sample_env_def IPversion_def get_ip_location_def mirrors_with_repo_def
        get_repo_id_def fun_eq_iff)
  have pre: "missing_parameter (get_request ''x86_64'' ''7'' ''os'' ''192.0.2.10'') = None
     \<and> get_repo_id sample_env selection_db ''7'' ''os'' ''x86_64'' = (1, ''7'', False)
     \<and> Peek (get_request ''x86_64'' ''7'' ''os'' ''192.0.2.10'') ''release'' = ''7''
     \<and> Peek (get_request ''x86_64'' ''7'' ''os'' ''192.0.2.10'') ''ip'' = ''192.0.2.10''
     \<and> Peek (get_request ''x86_64'' ''7'' ''os'' ''192.0.2.10'') ''repo'' = ''os''
     \<and> Peek (get_request ''x86_64'' ''7'' ''os'' ''192.0.2.10'') ''arch'' = ''x86_64''
     \<and> IPversion sample_env ''192.0.2.10'' = ''4''
     \<and> get_ip_location sample_env ''192.0.2.10'' = bavaria
     \<and> mirrors_with_repo sample_env selection_db 1 = [1, 2, 3, 4, 5, 6]"
    by code_simp
  have urls: "full_mirror_urls selection_db [1, 2] ''7'' ''os'' ''x86_64'' False
       = ''http://a.example.org/centos/7/os/x86_64/'' @ [nl]
         @ ''http://b.example.org/pub/centos/7/os/x86_64/'' @ [nl]"
    by code_simp
  have near: "nearby_mirrors e selection_db bavaria ''4'' [1, 2, 3, 4, 5, 6] 5
     \<in> {[2, 1, 2, 1, 2], [2, 1, 2, 2, 1], [2, 2, 1, 1, 2], [2, 2, 1, 2, 1]}"
    unfolding e_def by (rule nearby_mirrors_sample)
  then have "set (nearby_mirrors e selection_db bavaria ''4'' [1, 2, 3, 4, 5, 6] 5) = set [1, 2]
     \<and> nearby_mirrors e selection_db bavaria ''4'' [1, 2, 3, 4, 5, 6] 5 \<noteq> []"
    by auto
  then have rendered: "full_mirror_urls selection_db
        (nearby_mirrors e selection_db bavaria ''4'' [1, 2, 3, 4, 5, 6] 5) ''7'' ''os'' ''x86_64'' False
       = ''http://a.example.org/centos/7/os/x86_64/'' @ [nl]
         @ ''http://b.example.org/pub/centos/7/os/x86_64/'' @ [nl]"
    using full_mirror_urls_set
      [of "nearby_mirrors e selection_db bavaria ''4'' [1, 2, 3, 4, 5, 6] 5" "[1, 2]"
          selection_db "''7''" "''os''" "''x86_64''" False] urls
    by simp
  have miss: "\<And>k. cache_Get 1700000000 k empty_cache
      = (None, empty_cache\<lparr>MissCount := MissCount empty_cache + 1\<rparr>)"
    by (simp add: cache_Get_def empty_cache_def)
  have "Body (fst (http_handler_root e selection_db 1700000000
        (get_request ''x86_64'' ''7'' ''os'' ''192.0.2.10'') empty_cache))
       = ''http://a.example.org/centos/7/os/x86_64/'' @ [nl]
         @ ''http://b.example.org/pub/centos/7/os/x86_64/'' @ [nl]"
    by (simp add: http_handler_root_def select_and_respond_def Let_def env pre miss rendered)
  then show ?thesis
    using near env pre by (simp add: e_def)
qed

subsection \<open>Rendering\<close>

lemma starts_with_slash_append_nl:
  "starts_with ''/'' (cs @ nl # ys) = starts_with ''/'' cs"
  by (cases cs) (simp_all add: nl_def)

lemma multislash_append_nl:
  "multislash (xs @ nl # ys) = multislash xs @ nl # multislash ys"
proof (induction xs rule: multislash.induct)
  case 1
  show ?case by (simp add: is_word_def nl_def)
next
  case (2 c cs)
  show ?case
  proof (cases "is_word c \<and> starts_with ''/'' cs")
    case True
    have "dropWhile (\<lambda>x. x = CHR ''/'') (cs @ nl # ys)
            = dropWhile (\<lambda>x. x = CHR ''/'') cs @ nl # ys"
      by (rule dropWhile_append3) (simp add: nl_def)
    then show ?thesis
      using True 2 by (simp add: starts_with_slash_append_nl)
  next
    case False
    then show ?thesis
      using 2 by (auto simp add: starts_with_slash_append_nl)
  qed
qed

lemma multislash_lines:
  "multislash (concat (map (\<lambda>m. f m @ [nl]) ms))
     = concat (map (\<lambda>m. multislash (f m) @ [nl]) ms)"
proof (induction ms)
  case Nil
  show ?case by simp
next
  case (Cons m ms)
  have "multislash (f m @ nl # concat (map (\<lambda>m. f m @ [nl]) ms))
          = multislash (f m) @ nl # multislash (concat (map (\<lambda>m. f m @ [nl]) ms))"
    by (rule multislash_append_nl)
  then show ?case using Cons by simp
qed

lemma starts_with_7_not_8: "starts_with ''7'' release \<Longrightarrow> \<not> starts_with ''8'' release"
  by (cases release) auto

lemma url_lines_7_or_8:
  assumes "starts_with ''7'' release \<or> starts_with ''8'' release"
  shows "url_lines release repo arch is_altarch m
           = (''http://'' @ m_name m @ ''/''
                @ (if is_altarch then m_basedir_altarch m else m_basedir m)
                @ ''/'' @ release @ ''/'' @ repo @ ''/'' @ arch
                @ (if starts_with ''8'' release then ''/os/'' else ''/'')) @ [nl]"
  using assms starts_with_7_not_8 [of release]
  by (auto simp: url_lines_def Let_def)

lemma url_lines_other:
  "\<not> starts_with ''7'' release \<Longrightarrow> \<not> starts_with ''8'' release \<Longrightarrow>
   url_lines release repo arch is_altarch m = []"
  by (simp add: url_lines_def)

lemma starts_with_slash_multislash:
  "starts_with ''/'' (multislash s) = starts_with ''/'' s"
  by (cases s) simp_all

lemma slashes_after_word_skip_nonword:
  "\<not> is_word a \<Longrightarrow> slashes_after_word (a # rest) = slashes_after_word rest"
proof (cases rest)
  case Nil
  then show ?thesis by simp
next
  case (Cons b bs)
  assume "\<not> is_word a"
  then show ?thesis using Cons by (cases bs) simp_all
qed

lemma slashes_after_word_skip_single:
  "\<not> starts_with ''/'' rest \<Longrightarrow> slashes_after_word (a # CHR ''/'' # rest) = slashes_after_word rest"
proof (cases rest)
  case Nil
  then show ?thesis by simp
next
  case (Cons b bs)
  assume "\<not> starts_with ''/'' rest"
  then have "b \<noteq> CHR ''/''" using Cons by simp
  moreover have "slashes_after_word (CHR ''/'' # b # bs) = slashes_after_word (b # bs)"
    by (rule slashes_after_word_skip_nonword) (simp add: is_word_def)
  ultimately show ?thesis using Cons by simp
qed

lemma slashes_after_word_skip_no_slash:
  "\<not> starts_with ''/'' rest \<Longrightarrow> slashes_after_word (a # rest) = slashes_after_word rest"
proof (cases rest)
  case Nil
  then show ?thesis by simp
next
  case (Cons b bs)
  assume "\<not> starts_with ''/'' rest"
  then have "b \<noteq> CHR ''/''" using Cons by simp
  then show ?thesis using Cons by (cases bs) simp_all
qed

lemma dropWhile_slash_no_slash:
  "\<not> starts_with ''/'' (dropWhile (\<lambda>x. x = CHR ''/'') cs)"
  by (induction cs) simp_all

lemma multislash_collapsed: "\<not> slashes_after_word (multislash s)"
proof (induction s rule: multislash.induct)
  case 1
  show ?case by simp
next
  case (2 c cs)
  show ?case
  proof (cases "is_word c \<and> starts_with ''/'' cs")
    case True
    have "\<not> starts_with ''/'' (multislash (dropWhile (\<lambda>x. x = CHR ''/'') cs))"
      by (simp add: starts_with_slash_multislash dropWhile_slash_no_slash)
    then have "slashes_after_word (c # CHR ''/'' # multislash (dropWhile (\<lambda>x. x = CHR ''/'') cs))
        = slashes_after_word (multislash (dropWhile (\<lambda>x. x = CHR ''/'') cs))"
      by (rule slashes_after_word_skip_single)
    then show ?thesis using True 2 by simp
  next
    case False
    have "slashes_after_word (c # multislash cs) = slashes_after_word (multislash cs)"
    proof (cases "is_word c")
      case True
      then have "\<not> starts_with ''/'' (multislash cs)"
        using False by (simp add: starts_with_slash_multislash)
      then show ?thesis by (rule slashes_after_word_skip_no_slash)
    next
      case False
      then show ?thesis by (rule slashes_after_word_skip_nonword)
    qed
    then show ?thesis using False 2 by auto
  qed
qed

text \<open>What \<open>full_mirror_urls\<close> returns when its argument \<open>release\<close> begins with 7 or
  with 8: one line per row of the query, with the replacement applied line by line; and
  no body holds a word character followed by two slashes.\<close>

lemma full_mirror_urls_lines:
  assumes "starts_with ''7'' release \<or> starts_with ''8'' release"
    and "mirrorids \<noteq> []"
  shows "full_mirror_urls d mirrorids release repo arch is_altarch
           = concat (map (\<lambda>m. multislash
                 (''http://'' @ m_name m @ ''/''
                   @ (if is_altarch then m_basedir_altarch m else m_basedir m)
                   @ ''/'' @ release @ ''/'' @ repo @ ''/'' @ arch
                   @ (if starts_with ''8'' release then ''/os/'' else ''/'')) @ [nl])
               [m \<leftarrow> mirrors d. m_id m \<in> set mirrorids])
         \<and> \<not> slashes_after_word (full_mirror_urls d mirrorids release repo arch is_altarch)"
proof -
  have "url_lines release repo arch is_altarch
          = (\<lambda>m. (''http://'' @ m_name m @ ''/''
                   @ (if is_altarch then m_basedir_altarch m else m_basedir m)
                   @ ''/'' @ release @ ''/'' @ repo @ ''/'' @ arch
                   @ (if starts_with ''8'' release then ''/os/'' else ''/'')) @ [nl])"
    by (rule ext) (rule url_lines_7_or_8 [OF assms(1)])
  then have "full_mirror_urls d mirrorids release repo arch is_altarch
      = multislash (concat (map (\<lambda>m. (''http://'' @ m_name m @ ''/''
                   @ (if is_altarch then m_basedir_altarch m else m_basedir m)
                   @ ''/'' @ release @ ''/'' @ repo @ ''/'' @ arch
                   @ (if starts_with ''8'' release then ''/os/'' else ''/'')) @ [nl])
               (eligible d mirrorids)))"
    using assms(2) by (simp only: full_mirror_urls_def if_False)
  also have "\<dots> = concat (map (\<lambda>m. multislash
                 (''http://'' @ m_name m @ ''/''
                   @ (if is_altarch then m_basedir_altarch m else m_basedir m)
                   @ ''/'' @ release @ ''/'' @ repo @ ''/'' @ arch
                   @ (if starts_with ''8'' release then ''/os/'' else ''/'')) @ [nl])
               (eligible d mirrorids))"
    by (rule multislash_lines)
  finally have lines: "full_mirror_urls d mirrorids release repo arch is_altarch
           = concat (map (\<lambda>m. multislash
                 (''http://'' @ m_name m @ ''/''
                   @ (if is_altarch then m_basedir_altarch m else m_basedir m)
                   @ ''/'' @ release @ ''/'' @ repo @ ''/'' @ arch
                   @ (if starts_with ''8'' release then ''/os/'' else ''/'')) @ [nl])
               [m \<leftarrow> mirrors d. m_id m \<in> set mirrorids])"
    by (simp only: eligible_def)
  have "\<not> slashes_after_word (full_mirror_urls d mirrorids release repo arch is_altarch)"
    using multislash_collapsed [of "[]"] multislash_collapsed
    by (simp add: full_mirror_urls_def)
  then show ?thesis using lines by blast
qed

lemma full_mirror_urls_no_line:
  "\<not> starts_with ''7'' release \<Longrightarrow> \<not> starts_with ''8'' release \<Longrightarrow>
   full_mirror_urls d mirrorids release repo arch is_altarch = []"
proof -
  assume "\<not> starts_with ''7'' release" and "\<not> starts_with ''8'' release"
  then have lines: "url_lines release repo arch is_altarch = (\<lambda>m. [])"
    by (simp add: fun_eq_iff url_lines_other)
  have none: "concat (map (\<lambda>m. []) rows) = ([] :: string)" for rows :: "mirror_row list"
    by (induction rows) simp_all
  show ?thesis
    by (simp add: full_mirror_urls_def lines none)
qed

text \<open>C6 at the failing input: the request \<open>/?arch=x86_64&release=9&repo=BaseOS\<close> for the
  enabled repository with major release 9 and path \<open>9-stream\<close>, which has one enabled
  mirror (a.example.org, basedir \<open>/centos\<close>). The handler passes the path as \<open>release\<close>,
  neither \<open>^7\<close> nor \<open>^8\<close> matches it, and the selected mirror gets no line: the response is
  status 200 with an empty body, where the claim has the line
  \<open>http://a.example.org/centos/9-stream/BaseOS/x86_64/\<close>; the scheduler builds the probe
  URL of the same mirror and repository. Likewise for the repository with major release 8
  and path \<open>vault/8.5\<close>: the scheduler appends \<open>/os\<close> because the major release is 8, the
  handler renders nothing.\<close>

theorem C6_release_9_mirror_gets_no_line:
  "r_major_release repo_baseos9 = 9
   \<and> get_repo_id sample_env selection_db ''9'' ''BaseOS'' ''x86_64'' = (3, ''9-stream'', False)
   \<and> mirrors_with_repo sample_env selection_db 3 = [1]
   \<and> full_mirror_urls selection_db [1] ''9-stream'' ''BaseOS'' ''x86_64'' False = []
   \<and> StatusCode (fst (http_handler_root sample_env selection_db 1700000000
        (get_request ''x86_64'' ''9'' ''BaseOS'' ''192.0.2.10'') empty_cache)) = 200
   \<and> Body (fst (http_handler_root sample_env selection_db 1700000000
        (get_request ''x86_64'' ''9'' ''BaseOS'' ''192.0.2.10'') empty_cache)) = []
   \<and> t_URL (check_task (checked_ok 1 3, mirror_a, repo_baseos9))
       = ''http://a.example.org/centos/9-stream/BaseOS/x86_64''
   \<and> r_major_release repo_vault8 = 8
   \<and> get_repo_id sample_env selection_db ''8'' ''BaseOS'' ''aarch64'' = (4, ''vault/8.5'', False)
   \<and> mirrors_with_repo sample_env selection_db 4 = [1]
   \<and> full_mirror_urls selection_db [1] ''vault/8.5'' ''BaseOS'' ''aarch64'' False = []
   \<and> StatusCode (fst (http_handler_root sample_env selection_db 1700000000
        (get_request ''aarch64'' ''8'' ''BaseOS'' ''192.0.2.10'') empty_cache)) = 200
   \<and> Body (fst (http_handler_root sample_env selection_db 1700000000
        (get_request ''aarch64'' ''8'' ''BaseOS'' ''192.0.2.10'') empty_cache)) = []
   \<and> t_URL (check_task (checked_ok 1 4, mirror_a, repo_vault8))
       = ''http://a.example.org/centos/vault/8.5/BaseOS/aarch64/os''"
  by code_simp

end
